theory Spec2Isabelle
  imports Main "HOL-Library.Sublist" "HOL-Library.Log_Nat"
begin

section \<open>Python values used by the program\<close>

text \<open>
  Strings are lists of characters; a character stands for a code point below 256.
  Python's \<^verbatim>\<open>int\<close> is \<^typ>\<open>int\<close>. A Python \<^verbatim>\<open>float\<close> is a binary64 number: it is
  represented by the rational it denotes, and every float operation rounds its exact
  result to the nearest binary64 number, ties to even (\<open>fl\<close> below). Infinities and NaN
  are not represented, and \<open>fl\<close> does not overflow: the float operations modelled here
  act on confidence values, rates and scores, all between 0 and 100.
\<close>

datatype py_error =
    IndexError
  | AttributeError string
  | TypeError string
  | ZeroDivisionError
  | SyntaxError
  | ValueError
  | AnalysisException string
  | IOError

type_synonym pyfloat = rat

definition pow2 :: "int \<Rightarrow> rat" where
  "pow2 k = (if 0 \<le> k then 2 ^ nat k else 1 / 2 ^ nat (- k))"

text \<open>\<open>ilog2 x\<close> is the integer part of the binary logarithm of a positive rational.\<close>

definition ilog2 :: "rat \<Rightarrow> int" where
  "ilog2 x = (if 1 \<le> x then bitlen \<lfloor>x\<rfloor> - 1 else - bitlen (\<lceil>1 / x\<rceil> - 1))"

definition round_half_even :: "rat \<Rightarrow> int" where
  "round_half_even m =
     (let f = \<lfloor>m\<rfloor>; r = m - of_int f
      in if r < 1 / 2 then f
         else if 1 / 2 < r then f + 1
         else if even f then f else f + 1)"

text \<open>
  Rounding to binary64: 53 significant bits, and a unit in the last place never below
  \<open>2 ^ -1074\<close> (the subnormal range).
\<close>

definition fl :: "rat \<Rightarrow> pyfloat" where
  "fl x =
     (if x = 0 then 0
      else let u = pow2 (max (ilog2 \<bar>x\<bar> - 52) (- 1074))
           in of_int (round_half_even (x / u)) * u)"

definition py_fadd :: "pyfloat \<Rightarrow> pyfloat \<Rightarrow> pyfloat" where
  "py_fadd x y = fl (x + y)"

definition py_fsub :: "pyfloat \<Rightarrow> pyfloat \<Rightarrow> pyfloat" where
  "py_fsub x y = fl (x - y)"

definition py_fmul :: "pyfloat \<Rightarrow> pyfloat \<Rightarrow> pyfloat" where
  "py_fmul x y = fl (x * y)"

definition py_fdiv :: "pyfloat \<Rightarrow> pyfloat \<Rightarrow> py_error + pyfloat" where
  "py_fdiv x y = (if y = 0 then Inl ZeroDivisionError else Inr (fl (x / y)))"

subsection \<open>Strings\<close>

text \<open>\<^verbatim>\<open>s.split('\n')\<close>: the result is never empty.\<close>

fun py_split_nl :: "string \<Rightarrow> string list" where
  "py_split_nl [] = [[]]"
| "py_split_nl (c # cs) =
     (if c = CHR 0x0A then [] # py_split_nl cs
      else (case py_split_nl cs of
              [] \<Rightarrow> [[c]]
            | l # ls \<Rightarrow> (c # l) # ls))"

text \<open>\<^verbatim>\<open>'\n'.join(lines)\<close>\<close>

fun py_join_nl :: "string list \<Rightarrow> string" where
  "py_join_nl [] = []"
| "py_join_nl [l] = l"
| "py_join_nl (l # ls) = l @ CHR 0x0A # py_join_nl ls"

text \<open>\<^verbatim>\<open>sub in s\<close> on strings.\<close>

fun py_contains :: "string \<Rightarrow> string \<Rightarrow> bool" where
  "py_contains sub [] = (sub = [])"
| "py_contains sub (c # cs) = (prefix sub (c # cs) \<or> py_contains sub cs)"

definition lower_char :: "char \<Rightarrow> char" where
  "lower_char c =
     (let n = (of_char c :: nat)
      in if (65 \<le> n \<and> n \<le> 90) \<or> (192 \<le> n \<and> n \<le> 222 \<and> n \<noteq> 215)
         then char_of (n + 32) else c)"

definition py_lower :: "string \<Rightarrow> string" where
  "py_lower s = map lower_char s"

definition is_space :: "char \<Rightarrow> bool" where
  "is_space c =
     (let n = (of_char c :: nat)
      in (9 \<le> n \<and> n \<le> 13) \<or> (28 \<le> n \<and> n \<le> 32) \<or> n = 133 \<or> n = 160)"

definition py_lstrip :: "string \<Rightarrow> string" where
  "py_lstrip s = dropWhile is_space s"

definition py_strip :: "string \<Rightarrow> string" where
  "py_strip s = rev (dropWhile is_space (rev (dropWhile is_space s)))"

text \<open>\<^verbatim>\<open>str(n)\<close> for an integer.\<close>

definition digit_char :: "nat \<Rightarrow> char" where
  "digit_char d = char_of (48 + d)"

fun nat_digits :: "nat \<Rightarrow> nat \<Rightarrow> string \<Rightarrow> string" where
  "nat_digits 0 n acc = acc"
| "nat_digits (Suc fuel) n acc =
     (if n < 10 then digit_char n # acc
      else nat_digits fuel (n div 10) (digit_char (n mod 10) # acc))"

definition str_of_nat :: "nat \<Rightarrow> string" where
  "str_of_nat n = nat_digits (Suc n) n []"

definition str_of_int :: "int \<Rightarrow> string" where
  "str_of_int i = (if i < 0 then CHR ''-'' # str_of_nat (nat (- i)) else str_of_nat (nat i))"

text \<open>Values stored in an open metadata dictionary, and \<^verbatim>\<open>str(v)\<close> on them.\<close>

datatype pyval = PyNone | PyBool bool | PyInt int | PyStr string

fun py_str :: "pyval \<Rightarrow> string" where
  "py_str PyNone = ''None''"
| "py_str (PyBool b) = (if b then ''True'' else ''False'')"
| "py_str (PyInt i) = str_of_int i"
| "py_str (PyStr s) = s"

text \<open>
  The position a Python index denotes in a sequence of \<open>n\<close> elements: an index from
  \<open>- n\<close> up to \<open>-1\<close> counts from the end, and one outside \<open>- n \<dots> n - 1\<close> denotes nothing.
\<close>

definition norm_index :: "nat \<Rightarrow> int \<Rightarrow> nat option" where
  "norm_index n i =
     (if 0 \<le> i \<and> i < int n then Some (nat i)
      else if - int n \<le> i \<and> i < 0 then Some (nat (int n + i))
      else None)"

text \<open>\<^verbatim>\<open>xs[i]\<close>\<close>

definition py_index :: "'a list \<Rightarrow> int \<Rightarrow> py_error + 'a" where
  "py_index xs i =
     (case norm_index (length xs) i of None \<Rightarrow> Inl IndexError | Some j \<Rightarrow> Inr (xs ! j))"

section \<open>Data model (core/models.py)\<close>

datatype SeverityLevel = LOW | MEDIUM | HIGH | CRITICAL

datatype IssueType = SECURITY | QUALITY | PERFORMANCE | LOGIC | STYLE

datatype TestType = UNIT | INTEGRATION | FUNCTIONAL

text \<open>\<^verbatim>\<open>IssueType.value\<close>\<close>

fun IssueType_value :: "IssueType \<Rightarrow> string" where
  "IssueType_value SECURITY = ''security''"
| "IssueType_value QUALITY = ''quality''"
| "IssueType_value PERFORMANCE = ''performance''"
| "IssueType_value LOGIC = ''logic''"
| "IssueType_value STYLE = ''style''"

text \<open>
  \<^verbatim>\<open>AnalysisResult\<close> and its three subclasses. The fields a subclass adds are the
  \<open>extra\<close> component; \<open>BaseIssue\<close> is a plain \<^verbatim>\<open>AnalysisResult\<close>. The metadata
  dictionary is an association list, read with \<open>map_of\<close>.
\<close>

datatype issue_extra =
    BaseIssue
  | SecurityIssue "string option" "string option" "string option"
  | QualityIssue string int int
  | PerformanceIssue string SeverityLevel string

record AnalysisResult =
  file_path :: "string option"
  line_number :: int
  issue_type :: IssueType
  severity :: SeverityLevel
  description :: string
  suggestion :: string
  confidence :: pyfloat
  rule_id :: "string option"
  metadata :: "(string \<times> pyval) list"
  extra :: issue_extra

text \<open>\<^verbatim>\<open>issue.vulnerability_type\<close>, where the issue is a \<^verbatim>\<open>SecurityIssue\<close>.\<close>

fun vulnerability_type :: "issue_extra \<Rightarrow> string option" where
  "vulnerability_type (SecurityIssue cwe vt av) = vt"
| "vulnerability_type _ = None"

text \<open>\<^verbatim>\<open>hasattr(issue, 'quality_metric')\<close> and the attribute's value.\<close>

fun quality_metric :: "issue_extra \<Rightarrow> string option" where
  "quality_metric (QualityIssue qm th av) = Some qm"
| "quality_metric _ = None"

text \<open>
  One entry of \<^verbatim>\<open>TestResults.test_details\<close>: a dictionary with the keys \<^verbatim>\<open>test_id\<close>,
  \<^verbatim>\<open>status\<close> and either \<^verbatim>\<open>message\<close> or \<^verbatim>\<open>error\<close>. Wall-clock times are left out.
\<close>

record test_detail =
  test_id :: string
  status :: string
  message :: "string option"
  error :: "string option"

record TestResults =
  total_tests :: int
  passed_tests :: int
  failed_tests :: int
  error_tests :: int
  test_details :: "test_detail list"

text \<open>\<^verbatim>\<open>TestCase.input_data\<close>, one constructor per shape the generator builds.\<close>

datatype input_data =
    FunctionInput string "string list" "(string \<times> string) list list"
  | ClassInput string
  | GenericInput string

record TestCase =
  tc_id :: string
  tc_name :: string
  tc_description :: string
  tc_input_data :: input_data
  expected_output :: string
  test_type :: TestType
  generated_by :: string
  code_template :: "string option"

record RepairResult =
  original_code :: string
  repaired_code :: string
  applied_fixes :: "string list"
  success :: bool
  validation_passed :: bool
  performance_impact :: "(string \<times> pyfloat) list"
  side_effects :: "string list"
  repair_confidence :: pyfloat
  repair_strategy :: string

section \<open>Static analyzers (agents/static\_analysis\_agent.py)\<close>

subsection \<open>SecurityAnalyzer\<close>

definition hardcoded_password_issue :: "string option \<Rightarrow> int \<Rightarrow> AnalysisResult" where
  "hardcoded_password_issue fp i =
     \<lparr> file_path = fp, line_number = i, issue_type = SECURITY, severity = HIGH,
       description = ''Potential hardcoded password detected'',
       suggestion = ''Use environment variables or secure storage'',
       confidence = fl (8 / 10), rule_id = None, metadata = [],
       extra = SecurityIssue None (Some ''hardcoded_credentials'') None \<rparr>"

definition sql_injection_issue :: "string option \<Rightarrow> int \<Rightarrow> AnalysisResult" where
  "sql_injection_issue fp i =
     \<lparr> file_path = fp, line_number = i, issue_type = SECURITY, severity = HIGH,
       description = ''Potential SQL injection vulnerability'',
       suggestion = ''Use parameterized queries'',
       confidence = fl (7 / 10), rule_id = None, metadata = [],
       extra = SecurityIssue None (Some ''sql_injection'') None \<rparr>"

text \<open>The body of the loop over \<^verbatim>\<open>enumerate(lines, 1)\<close>, for one line.\<close>

definition security_line :: "string option \<Rightarrow> int \<Rightarrow> string \<Rightarrow> AnalysisResult list" where
  "security_line fp i line =
     (if py_contains ''password'' (py_lower line)
         \<and> (py_contains ''='' line \<or> py_contains '':'' line)
         \<and> list_ex (\<lambda>secret. py_contains secret (py_lower line))
               [''123'', ''admin'', ''test'', ''password'']
      then [hardcoded_password_issue fp i] else [])
     @
     (if (py_contains ''execute('' (py_lower line) \<or> py_contains ''cursor.execute'' (py_lower line))
         \<and> (py_contains ''+'' line \<or> py_contains ''%'' line \<or> py_contains ''format'' line)
      then [sql_injection_issue fp i] else [])"

fun security_loop :: "string option \<Rightarrow> int \<Rightarrow> string list \<Rightarrow> AnalysisResult list" where
  "security_loop fp i [] = []"
| "security_loop fp i (line # rest) = security_line fp i line @ security_loop fp (i + 1) rest"

definition SecurityAnalyzer_analyze :: "string \<Rightarrow> string option \<Rightarrow> AnalysisResult list" where
  "SecurityAnalyzer_analyze code fp = security_loop fp 1 (py_split_nl code)"

subsection \<open>QualityAnalyzer\<close>

definition todo_issue :: "string option \<Rightarrow> int \<Rightarrow> string \<Rightarrow> AnalysisResult" where
  "todo_issue fp i line =
     \<lparr> file_path = fp, line_number = i, issue_type = QUALITY, severity = LOW,
       description = ''TODO/FIXME comment found: '' @ py_strip line,
       suggestion = ''Address the TODO item or create proper issue'',
       confidence = fl (9 / 10), rule_id = None, metadata = [],
       extra = QualityIssue ''code_comments'' 0 1 \<rparr>"

definition long_line_issue :: "string option \<Rightarrow> int \<Rightarrow> string \<Rightarrow> AnalysisResult" where
  "long_line_issue fp i line =
     \<lparr> file_path = fp, line_number = i, issue_type = QUALITY, severity = LOW,
       description = ''Line too long ('' @ str_of_nat (length line) @ '' characters)'',
       suggestion = ''Break long lines into multiple lines'',
       confidence = fl (8 / 10), rule_id = None, metadata = [],
       extra = QualityIssue ''line_length'' 100 (int (length line)) \<rparr>"

definition quality_line :: "string option \<Rightarrow> int \<Rightarrow> string \<Rightarrow> AnalysisResult list" where
  "quality_line fp i line =
     (if list_ex (\<lambda>keyword. py_contains keyword (py_lower line)) [''todo'', ''fixme'', ''hack'']
      then [todo_issue fp i line] else [])
     @
     (if 100 < length line then [long_line_issue fp i line] else [])"

fun quality_loop :: "string option \<Rightarrow> int \<Rightarrow> string list \<Rightarrow> AnalysisResult list" where
  "quality_loop fp i [] = []"
| "quality_loop fp i (line # rest) = quality_line fp i line @ quality_loop fp (i + 1) rest"

definition QualityAnalyzer_analyze :: "string \<Rightarrow> string option \<Rightarrow> AnalysisResult list" where
  "QualityAnalyzer_analyze code fp = quality_loop fp 1 (py_split_nl code)"

subsection \<open>PerformanceAnalyzer\<close>

definition string_concat_issue :: "string option \<Rightarrow> int \<Rightarrow> AnalysisResult" where
  "string_concat_issue fp i =
     \<lparr> file_path = fp, line_number = i, issue_type = PERFORMANCE, severity = MEDIUM,
       description = ''Inefficient string concatenation in loop'',
       suggestion = ''Use list comprehension or join() method'',
       confidence = fl (6 / 10), rule_id = None, metadata = [],
       extra = PerformanceIssue ''string_concatenation'' MEDIUM
                 ''Use str.join() or list comprehension'' \<rparr>"

definition performance_line :: "string option \<Rightarrow> int \<Rightarrow> string \<Rightarrow> AnalysisResult list" where
  "performance_line fp i line =
     (if py_contains ''for'' line \<and> py_contains ''+'' line
         \<and> (py_contains ''string'' (py_lower line) \<or> py_contains [CHR 0x22] line
              \<or> py_contains [CHR 0x27] line)
      then [string_concat_issue fp i] else [])"

fun performance_loop :: "string option \<Rightarrow> int \<Rightarrow> string list \<Rightarrow> AnalysisResult list" where
  "performance_loop fp i [] = []"
| "performance_loop fp i (line # rest) =
     performance_line fp i line @ performance_loop fp (i + 1) rest"

definition PerformanceAnalyzer_analyze :: "string \<Rightarrow> string option \<Rightarrow> AnalysisResult list" where
  "PerformanceAnalyzer_analyze code fp = performance_loop fp 1 (py_split_nl code)"

subsection \<open>StaticAnalysisAgent.\_calculate\_overall\_score\<close>

text \<open>
  \<^verbatim>\<open>severity_weights.get(issue.severity, 1)\<close>: every severity level is a key of the
  table, so the default is never taken.
\<close>

fun severity_weights :: "SeverityLevel \<Rightarrow> int" where
  "severity_weights LOW = 1"
| "severity_weights MEDIUM = 2"
| "severity_weights HIGH = 3"
| "severity_weights CRITICAL = 5"

text \<open>One of the three \<^verbatim>\<open>for issue in ...: total_penalty += weight * k\<close> loops.\<close>

fun add_penalties :: "int \<Rightarrow> int \<Rightarrow> AnalysisResult list \<Rightarrow> int" where
  "add_penalties k total_penalty [] = total_penalty"
| "add_penalties k total_penalty (issue # issues) =
     add_penalties k (total_penalty + severity_weights (severity issue) * k) issues"

text \<open>
  All quantities are Python integers, and \<^verbatim>\<open>round(score, 2)\<close> of an integer is that
  integer.
\<close>

definition calculate_overall_score ::
  "AnalysisResult list \<Rightarrow> AnalysisResult list \<Rightarrow> AnalysisResult list \<Rightarrow> int" where
  "calculate_overall_score security_issues quality_issues performance_issues =
     (let max_penalty = 100;
          total_penalty = add_penalties 5 0 security_issues;
          total_penalty = add_penalties 2 total_penalty quality_issues;
          total_penalty = add_penalties 3 total_penalty performance_issues
      in max 0 (max_penalty - total_penalty))"

section \<open>What the program takes from outside\<close>

text \<open>
  Library functions the repository calls but does not define are parameters:
  \<^item> \<open>re_sub_password line\<close> is \<^verbatim>\<open>re.sub\<close> with the password pattern and its
    replacement, \<open>re_sub_concat line\<close> the one with the concatenation pattern;
  \<^item> \<open>ast_walk code\<close> is \<^verbatim>\<open>ast.parse(code)\<close> followed by \<^verbatim>\<open>ast.walk\<close>: the error
    raised by the parser, or the nodes in the order \<^verbatim>\<open>ast.walk\<close> yields them, which is
    breadth first. A node of class \<^verbatim>\<open>ast.FunctionDef\<close> (a \<^verbatim>\<open>def\<close>) carries its name, the
    names of its parameters and its line; one of class \<^verbatim>\<open>ast.AsyncFunctionDef\<close> (an
    \<^verbatim>\<open>async def\<close>), which is not a subclass of \<^verbatim>\<open>ast.FunctionDef\<close>, the same; one of
    class \<^verbatim>\<open>ast.ClassDef\<close> its name and its line;
  \<^item> \<open>float_sum\<close> is the built-in \<^verbatim>\<open>sum\<close> on floats, whose rounding depends on the
    interpreter version;
  \<^item> \<open>path_read p\<close> is \<open>None\<close> when \<^verbatim>\<open>os.path.exists(p)\<close> is false, and otherwise
    what opening and reading \<open>p\<close> gives: an error or the text.
\<close>

datatype ast_node =
    FunctionDef string "string list" int
  | AsyncFunctionDef string "string list" int
  | ClassDef string int
  | OtherNode

record externals =
  re_sub_password :: "string \<Rightarrow> string"
  re_sub_concat :: "string \<Rightarrow> string"
  ast_walk :: "string \<Rightarrow> py_error + ast_node list"
  float_sum :: "pyfloat list \<Rightarrow> pyfloat"
  path_read :: "string \<Rightarrow> (py_error + string) option"

section \<open>Repair strategies (agents/test\_driven\_repair\_agent.py)\<close>

text \<open>\<^verbatim>\<open>lines[i] = v\<close> and \<^verbatim>\<open>lines[start:stop] = new\<close>\<close>

definition py_set_index :: "'a list \<Rightarrow> int \<Rightarrow> 'a \<Rightarrow> py_error + 'a list" where
  "py_set_index xs i v =
     (case norm_index (length xs) i of None \<Rightarrow> Inl IndexError | Some j \<Rightarrow> Inr (xs[j := v]))"

definition clamp_index :: "nat \<Rightarrow> int \<Rightarrow> nat" where
  "clamp_index n i = (let j = (if i < 0 then int n + i else i) in nat (min (int n) (max 0 j)))"

definition py_set_slice :: "'a list \<Rightarrow> int \<Rightarrow> int \<Rightarrow> 'a list \<Rightarrow> 'a list" where
  "py_set_slice xs start stop new =
     (let a = clamp_index (length xs) start; b = max a (clamp_index (length xs) stop)
      in take a xs @ new @ drop b xs)"

definition failed_repair :: "string \<Rightarrow> string \<Rightarrow> pyfloat \<Rightarrow> string \<Rightarrow> RepairResult" where
  "failed_repair code side_effect conf strategy_name =
     \<lparr> original_code = code, repaired_code = code, applied_fixes = [], success = False,
       validation_passed = False, performance_impact = [], side_effects = [side_effect],
       repair_confidence = conf, repair_strategy = strategy_name \<rparr>"

text \<open>\<^verbatim>\<open>str(issue.metadata.get(key, ''))\<close>\<close>

definition metadata_str :: "AnalysisResult \<Rightarrow> string \<Rightarrow> string" where
  "metadata_str issue key = (case map_of (metadata issue) key of None \<Rightarrow> [] | Some v \<Rightarrow> py_str v)"

definition SecurityRepairStrategy_repair ::
  "externals \<Rightarrow> string \<Rightarrow> AnalysisResult \<Rightarrow> py_error + RepairResult" where
  "SecurityRepairStrategy_repair ext code issue =
     (let lines = py_split_nl code
      in case py_index lines (line_number issue - 1) of
           Inl e \<Rightarrow> Inl e
         | Inr original_line \<Rightarrow>
             if py_contains ''hardcoded_credentials'' (metadata_str issue ''vulnerability_type'')
             then (let fixed_line = re_sub_password ext original_line
                   in case py_set_index lines (line_number issue - 1) fixed_line of
                        Inl e \<Rightarrow> Inl e
                      | Inr lines' \<Rightarrow>
                          Inr \<lparr> original_code = code, repaired_code = py_join_nl lines',
                                applied_fixes =
                                  [''Replaced hardcoded password with environment variable''],
                                success = True, validation_passed = True,
                                performance_impact = [(''speed_impact'', 0)],
                                side_effects = [''Requires PASSWORD environment variable''],
                                repair_confidence = fl (8 / 10),
                                repair_strategy = ''security_replacement'' \<rparr>)
             else Inr (failed_repair code ''No specific security repair available'' 0
                         ''security_none''))"

definition QualityRepairStrategy_repair ::
  "string \<Rightarrow> AnalysisResult \<Rightarrow> py_error + RepairResult" where
  "QualityRepairStrategy_repair code issue =
     (let lines = py_split_nl code
      in case py_index lines (line_number issue - 1) of
           Inl e \<Rightarrow> Inl e
         | Inr original_line \<Rightarrow>
             if quality_metric (extra issue) = Some ''line_length'' \<and> 100 < length original_line
             then (let indent = length original_line - length (py_lstrip original_line);
                       fixed_lines =
                         [take 80 original_line @ [CHR '' '', CHR 0x5C],
                          replicate indent CHR '' '' @ py_strip (drop 80 original_line)];
                       lines' = py_set_slice lines (line_number issue - 1) (line_number issue)
                                  fixed_lines
                   in Inr \<lparr> original_code = code, repaired_code = py_join_nl lines',
                            applied_fixes =
                              [''Split long line at position '' @ str_of_int (line_number issue)],
                            success = True, validation_passed = True,
                            performance_impact = [(''readability_impact'', fl (2 / 10))],
                            side_effects = [''Code formatting changed''],
                            repair_confidence = fl (9 / 10),
                            repair_strategy = ''quality_formatting'' \<rparr>)
             else Inr (failed_repair code ''No specific quality repair available'' 0
                         ''quality_none''))"

definition PerformanceRepairStrategy_repair ::
  "externals \<Rightarrow> string \<Rightarrow> AnalysisResult \<Rightarrow> py_error + RepairResult" where
  "PerformanceRepairStrategy_repair ext code issue =
     (let lines = py_split_nl code
      in case py_index lines (line_number issue - 1) of
           Inl e \<Rightarrow> Inl e
         | Inr original_line \<Rightarrow>
             if py_contains ''string_concatenation'' (metadata_str issue ''performance_metric'')
                \<and> py_contains ''+'' original_line \<and> py_contains ''for'' original_line
             then (let fixed_line = re_sub_concat ext original_line
                   in case py_set_index lines (line_number issue - 1) fixed_line of
                        Inl e \<Rightarrow> Inl e
                      | Inr lines' \<Rightarrow>
                          Inr \<lparr> original_code = code, repaired_code = py_join_nl lines',
                                applied_fixes =
                                  [''Optimized string concatenation at line ''
                                     @ str_of_int (line_number issue)],
                                success = True, validation_passed = True,
                                performance_impact = [(''speed_improvement'', fl (3 / 10))],
                                side_effects = [''String concatenation logic changed''],
                                repair_confidence = fl (7 / 10),
                                repair_strategy = ''performance_optimization'' \<rparr>)
             else Inr (failed_repair code ''No specific performance repair available'' 0
                         ''performance_none''))"

definition LogicRepairStrategy_repair ::
  "string \<Rightarrow> AnalysisResult \<Rightarrow> py_error + RepairResult" where
  "LogicRepairStrategy_repair code issue =
     Inr (failed_repair code ''Logic repair requires manual intervention'' (fl (1 / 10))
            ''logic_manual'')"

text \<open>\<^verbatim>\<open>str(e)\<close> for the exceptions a strategy can raise.\<close>

fun py_error_str :: "py_error \<Rightarrow> string" where
  "py_error_str IndexError = ''list index out of range''"
| "py_error_str (AttributeError a) = ''object has no attribute '' @ a"
| "py_error_str (TypeError m) = m"
| "py_error_str ZeroDivisionError = ''division by zero''"
| "py_error_str SyntaxError = ''invalid syntax''"
| "py_error_str ValueError = ''invalid value''"
| "py_error_str (AnalysisException m) = m"
| "py_error_str IOError = ''input/output error''"

text \<open>
  \<^verbatim>\<open>TestDrivenRepairAgent._repair_issue\<close>: the strategy map has the keys security,
  quality, performance and logic; an exception of the strategy becomes a failed result.
\<close>

definition repair_strategies ::
  "externals \<Rightarrow> string \<Rightarrow> (string \<Rightarrow> AnalysisResult \<Rightarrow> py_error + RepairResult) option" where
  "repair_strategies ext strategy_type =
     (if strategy_type = ''security'' then Some (SecurityRepairStrategy_repair ext)
      else if strategy_type = ''quality'' then Some QualityRepairStrategy_repair
      else if strategy_type = ''performance'' then Some (PerformanceRepairStrategy_repair ext)
      else if strategy_type = ''logic'' then Some LogicRepairStrategy_repair
      else None)"

definition repair_issue :: "externals \<Rightarrow> string \<Rightarrow> AnalysisResult \<Rightarrow> RepairResult" where
  "repair_issue ext code issue =
     (let strategy_type = IssueType_value (issue_type issue)
      in case repair_strategies ext strategy_type of
           None \<Rightarrow> failed_repair code ''No repair strategy available'' 0 ''none''
         | Some strategy \<Rightarrow>
             (case strategy code issue of
                Inr r \<Rightarrow> r
              | Inl e \<Rightarrow> failed_repair code (''Repair failed: '' @ py_error_str e) 0
                           strategy_type))"

section \<open>TestGenerator\<close>

text \<open>\<^verbatim>\<open>TEST_CONFIG.get('max_test_cases', 50)\<close>, with the table of core/constants.py.\<close>

definition TEST_CONFIG_max_test_cases :: int where
  "TEST_CONFIG_max_test_cases = 50"

text \<open>\<^verbatim>\<open>sep.join(xs)\<close>\<close>

fun py_join :: "string \<Rightarrow> string list \<Rightarrow> string" where
  "py_join sep [] = []"
| "py_join sep [x] = x"
| "py_join sep (x # xs) = x @ sep @ py_join sep xs"

definition generate_test_inputs :: "string list \<Rightarrow> (string \<times> string) list list" where
  "generate_test_inputs args =
     (if length args = 0 then [[]]
      else if length args = 1 then [[(hd args, ''test_value'')]]
      else [map (\<lambda>(i, arg). (arg, ''test_'' @ str_of_nat i)) (enumerate 0 args)])"

definition generate_test_template :: "string \<Rightarrow> string list \<Rightarrow> string" where
  "generate_test_template func_name args =
     (let args_str = py_join '', '' args
      in [CHR 0x0A] @ ''def test_'' @ func_name @ ''():'' @ [CHR 0x0A]
         @ ''    # Test function '' @ func_name @ [CHR 0x0A]
         @ ''    result = '' @ func_name @ ''('' @ args_str @ '')'' @ [CHR 0x0A]
         @ ''    # Add assertions here'' @ [CHR 0x0A]
         @ ''    assert result is not None'' @ [CHR 0x0A])"

text \<open>The counter argument is \<^verbatim>\<open>self.test_counter\<close> after its increment.\<close>

definition generate_function_test :: "int \<Rightarrow> string \<Rightarrow> string list \<Rightarrow> TestCase" where
  "generate_function_test test_counter func_name args =
     \<lparr> tc_id = ''test_'' @ func_name @ ''_'' @ str_of_int test_counter,
       tc_name = ''Test '' @ func_name,
       tc_description = ''Test function '' @ func_name @ '' with ''
                          @ str_of_nat (length args) @ '' arguments'',
       tc_input_data = FunctionInput func_name args (generate_test_inputs args),
       expected_output = ''success'', test_type = UNIT, generated_by = ''ai'',
       code_template = Some (generate_test_template func_name args) \<rparr>"

definition generate_class_tests :: "string \<Rightarrow> TestCase list" where
  "generate_class_tests class_name =
     [\<lparr> tc_id = ''test_'' @ class_name @ ''_init'',
        tc_name = ''Test '' @ class_name @ '' initialization'',
        tc_description = ''Test '' @ class_name @ '' class initialization'',
        tc_input_data = ClassInput class_name,
        expected_output = ''instance_created'', test_type = UNIT, generated_by = ''ai'',
        code_template = None \<rparr>]"

definition generate_generic_test :: "int \<Rightarrow> string \<Rightarrow> TestCase" where
  "generate_generic_test test_counter code =
     \<lparr> tc_id = ''generic_test_'' @ str_of_int test_counter,
       tc_name = ''Generic code test'',
       tc_description = ''Generic test for code validation'',
       tc_input_data = GenericInput (if 100 < length code then take 100 code @ ''...'' else code),
       expected_output = ''code_executable'', test_type = UNIT, generated_by = ''template'',
       code_template = None \<rparr>"

text \<open>
  The loop over \<^verbatim>\<open>ast.walk(tree)\<close>. A test case object is always true, so every
  function test is appended. Only the nodes that are instances of \<^verbatim>\<open>ast.FunctionDef\<close> or
  \<^verbatim>\<open>ast.ClassDef\<close> give tests.
\<close>

fun generate_loop :: "int \<Rightarrow> ast_node list \<Rightarrow> TestCase list \<Rightarrow> TestCase list \<times> int" where
  "generate_loop test_counter [] test_cases = (test_cases, test_counter)"
| "generate_loop test_counter (FunctionDef func_name args lineno # nodes) test_cases =
     generate_loop (test_counter + 1) nodes
       (test_cases @ [generate_function_test (test_counter + 1) func_name args])"
| "generate_loop test_counter (ClassDef class_name lineno # nodes) test_cases =
     generate_loop test_counter nodes (test_cases @ generate_class_tests class_name)"
| "generate_loop test_counter (AsyncFunctionDef func_name args lineno # nodes) test_cases =
     generate_loop test_counter nodes test_cases"
| "generate_loop test_counter (OtherNode # nodes) test_cases =
     generate_loop test_counter nodes test_cases"

text \<open>
  \<^verbatim>\<open>generate_tests\<close> takes and returns \<^verbatim>\<open>self.test_counter\<close>. A failing parse leaves one
  generic test.
\<close>

definition generate_tests :: "externals \<Rightarrow> int \<Rightarrow> string \<Rightarrow> TestCase list \<times> int" where
  "generate_tests ext test_counter code =
     (let (test_cases, test_counter') =
            (case ast_walk ext code of
               Inr nodes \<Rightarrow> generate_loop test_counter nodes []
             | Inl e \<Rightarrow> ([generate_generic_test (test_counter + 1) code], test_counter + 1));
          max_tests = TEST_CONFIG_max_test_cases
      in (take (nat max_tests) test_cases, test_counter'))"

section \<open>TestRunner\<close>

text \<open>
  \<^verbatim>\<open>_execute_unit_test\<close>: the status and the message of the result dictionary; a parser
  error other than a syntax error is raised to the caller.
\<close>

definition execute_unit_test :: "externals \<Rightarrow> string \<Rightarrow> py_error + string \<times> string option" where
  "execute_unit_test ext code =
     (case ast_walk ext code of
        Inr nodes \<Rightarrow> Inr (''passed'', Some ''Code compiles successfully'')
      | Inl SyntaxError \<Rightarrow> Inr (''failed'', None)
      | Inl e \<Rightarrow> Inl e)"

definition run_single_test :: "externals \<Rightarrow> TestCase \<Rightarrow> string \<Rightarrow> test_detail" where
  "run_single_test ext test_case code =
     (case (if test_type test_case = UNIT then execute_unit_test ext code
            else Inr (''passed'', Some ''Test executed'')) of
        Inr (st, msg) \<Rightarrow>
          \<lparr> test_id = tc_id test_case, status = st,
            message = Some (case msg of None \<Rightarrow> [] | Some m \<Rightarrow> m), error = None \<rparr>
      | Inl e \<Rightarrow>
          \<lparr> test_id = tc_id test_case, status = ''error'', message = None,
            error = Some (py_error_str e) \<rparr>)"

fun run_loop ::
  "externals \<Rightarrow> string \<Rightarrow> TestCase list \<Rightarrow> int \<Rightarrow> int \<Rightarrow> int \<Rightarrow> test_detail list
     \<Rightarrow> int \<times> int \<times> int \<times> test_detail list" where
  "run_loop ext code [] passed failed errors details = (passed, failed, errors, details)"
| "run_loop ext code (test_case # rest) passed failed errors details =
     (let result = run_single_test ext test_case code;
          details' = details @ [result]
      in if status result = ''passed'' then run_loop ext code rest (passed + 1) failed errors details'
         else if status result = ''failed''
           then run_loop ext code rest passed (failed + 1) errors details'
         else run_loop ext code rest passed failed (errors + 1) details')"

definition run_tests :: "externals \<Rightarrow> TestCase list \<Rightarrow> string \<Rightarrow> TestResults" where
  "run_tests ext test_cases code =
     (let (passed, failed, errors, details) = run_loop ext code test_cases 0 0 0 []
      in \<lparr> total_tests = int (length test_cases), passed_tests = passed,
           failed_tests = failed, error_tests = errors, test_details = details \<rparr>)"

section \<open>TestDrivenRepairAgent\<close>

text \<open>
  Reading an attribute of a \<^verbatim>\<open>TestResults\<close> object by name. The dataclass declares the
  four counts, \<^verbatim>\<open>execution_time\<close> and \<^verbatim>\<open>test_details\<close>; the function gives the value of a
  count, and nothing else is read through it. A name the dataclass does not declare
  raises \<^verbatim>\<open>AttributeError\<close>.
\<close>

definition TestResults_getattr :: "TestResults \<Rightarrow> string \<Rightarrow> py_error + int" where
  "TestResults_getattr r attr =
     (if attr = ''total_tests'' then Inr (total_tests r)
      else if attr = ''passed_tests'' then Inr (passed_tests r)
      else if attr = ''failed_tests'' then Inr (failed_tests r)
      else if attr = ''error_tests'' then Inr (error_tests r)
      else if attr = ''execution_time'' \<or> attr = ''test_details''
        then Inl (TypeError ''not a count'')
      else Inl (AttributeError attr))"

record improvement =
  failed_tests_reduction :: int
  passed_tests_increase :: int
  success_rate_improvement :: pyfloat

text \<open>
  \<^verbatim>\<open>_calculate_improvement\<close>: the dictionary display evaluates its three values in
  order. Integer division \<^verbatim>\<open>/\<close> gives the float nearest to the quotient.
\<close>

definition calculate_improvement :: "TestResults \<Rightarrow> TestResults \<Rightarrow> py_error + improvement" where
  "calculate_improvement initial_results final_results =
     (let reduction = failed_tests initial_results - failed_tests final_results
      in case TestResults_getattr initial_results ''passed_results'' of
           Inl e \<Rightarrow> Inl e
         | Inr initial_passed \<Rightarrow>
             (let increase = passed_tests final_results - initial_passed
              in if 0 < total_tests initial_results
                 then (case py_fdiv (of_int (passed_tests final_results))
                               (of_int (total_tests final_results)) of
                         Inl e \<Rightarrow> Inl e
                       | Inr final_rate \<Rightarrow>
                           (case py_fdiv (of_int (passed_tests initial_results))
                                   (of_int (total_tests initial_results)) of
                              Inl e \<Rightarrow> Inl e
                            | Inr initial_rate \<Rightarrow>
                                Inr \<lparr> failed_tests_reduction = reduction,
                                      passed_tests_increase = increase,
                                      success_rate_improvement =
                                        py_fsub final_rate initial_rate \<rparr>))
                 else Inr \<lparr> failed_tests_reduction = reduction,
                            passed_tests_increase = increase,
                            success_rate_improvement = 0 \<rparr>))"

text \<open>\<^verbatim>\<open>_calculate_repair_confidence\<close>\<close>

definition calculate_repair_confidence :: "externals \<Rightarrow> RepairResult list \<Rightarrow> pyfloat" where
  "calculate_repair_confidence ext repair_results =
     (if repair_results = [] then 0
      else (let total_confidence = float_sum ext (map repair_confidence repair_results)
            in fl (total_confidence / of_nat (length repair_results))))"

text \<open>\<^verbatim>\<open>_identify_issues_from_tests\<close>\<close>

definition test_failure_issue :: "test_detail \<Rightarrow> AnalysisResult" where
  "test_failure_issue test_detail =
     \<lparr> file_path = Some ''generated'', line_number = 0, issue_type = LOGIC, severity = HIGH,
       description = ''Test failed: ''
                       @ (case error test_detail of None \<Rightarrow> ''Unknown error'' | Some e \<Rightarrow> e),
       suggestion = ''Review and fix the failing test case'',
       confidence = fl (7 / 10), rule_id = None, metadata = [], extra = BaseIssue \<rparr>"

definition identify_issues_from_tests :: "TestResults \<Rightarrow> AnalysisResult list" where
  "identify_issues_from_tests test_results =
     map test_failure_issue (filter (\<lambda>d. status d = ''failed'') (test_details test_results))"

text \<open>
  The repair loop of \<^verbatim>\<open>analyze_and_repair\<close>: the state is \<^verbatim>\<open>current_code\<close> and
  \<^verbatim>\<open>repair_results\<close>; both statements under \<^verbatim>\<open>if repair_result.success\<close> belong to the
  branch.
\<close>

fun repair_loop ::
  "externals \<Rightarrow> string \<Rightarrow> RepairResult list \<Rightarrow> AnalysisResult list
     \<Rightarrow> string \<times> RepairResult list" where
  "repair_loop ext current_code repair_results [] = (current_code, repair_results)"
| "repair_loop ext current_code repair_results (issue # issues) =
     (let repair_result = repair_issue ext current_code issue
      in if success repair_result
         then repair_loop ext (repaired_code repair_result) (repair_results @ [repair_result])
                issues
         else repair_loop ext current_code repair_results issues)"

text \<open>\<^verbatim>\<open>BaseAgent.handle_error\<close>: the error map, without its timestamp.\<close>

record error_map =
  em_error :: py_error
  em_success :: bool
  em_agent :: string
  em_context :: "(string \<times> pyval) list"

definition handle_error :: "string \<Rightarrow> py_error \<Rightarrow> (string \<times> pyval) list \<Rightarrow> error_map" where
  "handle_error agent e context =
     \<lparr> em_error = e, em_success = False, em_agent = agent, em_context = context \<rparr>"

datatype 'a agent_result = ResultMap 'a | ErrorMap error_map

text \<open>\<^verbatim>\<open>_test_results_to_dict\<close>: the counts and the derived success rate.\<close>

definition test_results_to_dict :: "TestResults \<Rightarrow> (int \<times> int \<times> int \<times> int) \<times> pyfloat" where
  "test_results_to_dict r =
     ((total_tests r, passed_tests r, failed_tests r, error_tests r),
      (if 0 < total_tests r then fl (of_int (passed_tests r) / of_int (total_tests r)) else 0))"

record repair_report =
  rep_original_code :: string
  rep_repaired_code :: string
  generated_tests :: "TestCase list"
  rep_initial_test_results :: "(int \<times> int \<times> int \<times> int) \<times> pyfloat"
  rep_final_test_results :: "(int \<times> int \<times> int \<times> int) \<times> pyfloat"
  applied_repairs :: "RepairResult list"
  repair_success :: bool
  improvement_metrics :: improvement
  rep_confidence :: pyfloat
  test_cases_generated :: int
  repairs_attempted :: int
  repairs_successful :: int

text \<open>The result dictionary of \<^verbatim>\<open>analyze_and_repair\<close>, built in the order of its keys.\<close>

definition build_result ::
  "externals \<Rightarrow> string \<Rightarrow> string \<Rightarrow> TestCase list \<Rightarrow> TestResults \<Rightarrow> TestResults
     \<Rightarrow> RepairResult list \<Rightarrow> AnalysisResult list \<Rightarrow> py_error + repair_report" where
  "build_result ext code current_code test_cases test_results final_test_results
       repair_results issues =
     (case calculate_improvement test_results final_test_results of
        Inl e \<Rightarrow> Inl e
      | Inr metrics \<Rightarrow>
          Inr \<lparr> rep_original_code = code, rep_repaired_code = current_code,
                generated_tests = test_cases,
                rep_initial_test_results = test_results_to_dict test_results,
                rep_final_test_results = test_results_to_dict final_test_results,
                applied_repairs = repair_results,
                repair_success = (0 < length repair_results
                   \<and> failed_tests final_test_results < failed_tests test_results),
                improvement_metrics = metrics,
                rep_confidence = calculate_repair_confidence ext repair_results,
                test_cases_generated = int (length test_cases),
                repairs_attempted = int (length issues),
                repairs_successful = int (length repair_results) \<rparr>)"

text \<open>
  \<^verbatim>\<open>analyze_and_repair(code, issues)\<close>: \<open>issues\<close> is \<open>None\<close> when the caller passes
  none. The agent's state is the generator's counter and the execution history, one
  entry (operation, success) per \<^verbatim>\<open>record_execution\<close>; the record written after a
  result carries the result's \<^verbatim>\<open>repair_success\<close>. Any exception ends in the error map.
\<close>

record repair_agent_state =
  test_counter :: int
  repair_history :: "(string \<times> bool) list"

definition TestDrivenRepairAgent_analyze_and_repair ::
  "externals \<Rightarrow> repair_agent_state \<Rightarrow> string \<Rightarrow> AnalysisResult list option
     \<Rightarrow> repair_report agent_result \<times> repair_agent_state" where
  "TestDrivenRepairAgent_analyze_and_repair ext st code issues =
     (let (test_cases, counter') = generate_tests ext (test_counter st) code;
          test_results = run_tests ext test_cases code;
          issues' = (if (issues = None \<or> issues = Some []) \<and> 0 < failed_tests test_results
                     then Some (identify_issues_from_tests test_results) else issues);
          context = [(''code_length'', PyInt (int (length code)))];
          outcome =
            (case issues' of
               None \<Rightarrow> Inl (TypeError ''NoneType object is not iterable'')
             | Some iss \<Rightarrow>
                 (let (current_code, repair_results) = repair_loop ext code [] iss;
                      final_test_results = run_tests ext test_cases current_code
                  in build_result ext code current_code test_cases test_results
                       final_test_results repair_results iss))
      in case outcome of
           Inr result \<Rightarrow>
             (ResultMap result,
              \<lparr> test_counter = counter',
                repair_history = repair_history st
                  @ [(''test_driven_repair'', repair_success result)] \<rparr>)
         | Inl e \<Rightarrow>
             (ErrorMap (handle_error ''TestDrivenRepairAgent'' e context),
              \<lparr> test_counter = counter',
                repair_history = repair_history st @ [(''test_driven_repair'', False)] \<rparr>))"

section \<open>StaticAnalysisAgent.analyze\<close>

text \<open>
  The part of the result map the coordinator reads: the three issue lists and the score.
  The complexity metrics and the suggestions are left out. Every analyzer is enabled:
  \<^verbatim>\<open>ANALYSIS_RULES\<close> has \<^verbatim>\<open>enabled: True\<close> for the three categories, and the default of a
  missing entry is \<^verbatim>\<open>True\<close>.
\<close>

record static_report =
  sr_file_path :: "string option"
  code_size :: int
  security_issues :: "AnalysisResult list"
  quality_issues :: "AnalysisResult list"
  performance_issues :: "AnalysisResult list"
  overall_score :: int

definition analysis_rule_enabled :: "string \<Rightarrow> bool" where
  "analysis_rule_enabled analyzer_name = True"

text \<open>\<^verbatim>\<open>BaseAgent.validate_input\<close> on a string.\<close>

definition validate_input :: "string \<Rightarrow> bool" where
  "validate_input input_data = (0 < length input_data)"

text \<open>
  The state is the agent's execution history. The early return for an invalid input
  records nothing.
\<close>

definition StaticAnalysisAgent_analyze ::
  "externals \<Rightarrow> (string \<times> bool) list \<Rightarrow> string \<Rightarrow> string option
     \<Rightarrow> static_report agent_result \<times> (string \<times> bool) list" where
  "StaticAnalysisAgent_analyze ext history target context_file_path =
     (let context = [(''target'', PyStr target)]
      in case (case path_read ext target of
                 None \<Rightarrow> Inr (target, context_file_path)
               | Some (Inr text) \<Rightarrow> Inr (text, Some target)
               | Some (Inl e) \<Rightarrow>
                   Inl (AnalysisException (''Failed to read file '' @ target))) of
           Inl e \<Rightarrow>
             (ErrorMap (handle_error ''StaticAnalysisAgent'' e context),
              history @ [(''static_analysis'', False)])
         | Inr (code, fp) \<Rightarrow>
             if \<not> validate_input code
             then (ErrorMap (handle_error ''StaticAnalysisAgent''
                               (AnalysisException ''Invalid input code'') context),
                   history)
             else (let sec = (if analysis_rule_enabled ''security''
                              then SecurityAnalyzer_analyze code fp else []);
                       qual = (if analysis_rule_enabled ''quality''
                               then QualityAnalyzer_analyze code fp else []);
                       perf = (if analysis_rule_enabled ''performance''
                               then PerformanceAnalyzer_analyze code fp else [])
                   in (ResultMap \<lparr> sr_file_path = fp, code_size = int (length code),
                                   security_issues = sec, quality_issues = qual,
                                   performance_issues = perf,
                                   overall_score = calculate_overall_score sec qual perf \<rparr>,
                       history @ [(''static_analysis'', True)])))"

section \<open>CoordinatorAgent.\_execute\_hybrid\_workflow\<close>

text \<open>The \<^verbatim>\<open>.get(key, default)\<close> reads the workflow makes on the two result maps.\<close>

definition all_static_issues :: "static_report agent_result \<Rightarrow> AnalysisResult list" where
  "all_static_issues static_result =
     (case static_result of
        ResultMap r \<Rightarrow> security_issues r @ quality_issues r @ performance_issues r
      | ErrorMap e \<Rightarrow> [])"

definition get_overall_score :: "static_report agent_result \<Rightarrow> int" where
  "get_overall_score static_result =
     (case static_result of ResultMap r \<Rightarrow> overall_score r | ErrorMap e \<Rightarrow> 0)"

definition get_repaired_code :: "repair_report agent_result \<Rightarrow> string \<Rightarrow> string" where
  "get_repaired_code repair_result dflt =
     (case repair_result of ResultMap r \<Rightarrow> rep_repaired_code r | ErrorMap e \<Rightarrow> dflt)"

definition get_repair_success :: "repair_report agent_result \<Rightarrow> bool" where
  "get_repair_success repair_result =
     (case repair_result of ResultMap r \<Rightarrow> repair_success r | ErrorMap e \<Rightarrow> False)"

definition get_applied_repairs :: "repair_report agent_result \<Rightarrow> RepairResult list" where
  "get_applied_repairs repair_result =
     (case repair_result of ResultMap r \<Rightarrow> applied_repairs r | ErrorMap e \<Rightarrow> [])"

record hybrid_result =
  strategy :: string
  static_initial :: "static_report agent_result"
  static_final :: "static_report agent_result option"
  hy_repair_results :: "repair_report agent_result option"
  final_code :: string
  total_issues :: int
  overall_success :: bool
  hy_applied_repairs :: "RepairResult list"
  issues_identified :: int
  initial_quality_score :: int
  final_quality_score :: int
  quality_improvement :: int
  repairs_applied :: int

text \<open>The coordinator owns one static analysis agent and one repair agent.\<close>

record coordinator_state =
  static_history :: "(string \<times> bool) list"
  repair_agent :: repair_agent_state

definition execute_hybrid_workflow ::
  "externals \<Rightarrow> coordinator_state \<Rightarrow> string \<Rightarrow> string option
     \<Rightarrow> hybrid_result \<times> coordinator_state" where
  "execute_hybrid_workflow ext st code fp =
     (let (static_result, h1) = StaticAnalysisAgent_analyze ext (static_history st) code fp;
          all_issues = all_static_issues static_result;
          (repair_result, ra) =
            (if all_issues \<noteq> []
             then (let (r, ra') = TestDrivenRepairAgent_analyze_and_repair ext (repair_agent st)
                                    code (Some all_issues)
                   in (Some r, ra'))
             else (None, repair_agent st));
          final_code' = (case repair_result of
                           None \<Rightarrow> code
                         | Some r \<Rightarrow> get_repaired_code r code);
          (final_static_result, h2) =
            (if final_code' \<noteq> code
             then (let (r, h) = StaticAnalysisAgent_analyze ext h1 final_code' fp
                   in (Some r, h))
             else (None, h1));
          final_score = (case final_static_result of
                           None \<Rightarrow> get_overall_score static_result
                         | Some r \<Rightarrow> get_overall_score r)
      in (\<lparr> strategy = ''HYBRID'', static_initial = static_result,
            static_final = final_static_result, hy_repair_results = repair_result,
            final_code = final_code', total_issues = int (length all_issues),
            overall_success = (0 < length all_issues
               \<and> (case repair_result of None \<Rightarrow> True | Some r \<Rightarrow> get_repair_success r)),
            hy_applied_repairs = (case repair_result of
                                    None \<Rightarrow> []
                                  | Some r \<Rightarrow> get_applied_repairs r),
            issues_identified = int (length all_issues),
            initial_quality_score = get_overall_score static_result,
            final_quality_score = final_score,
            quality_improvement = final_score - get_overall_score static_result,
            repairs_applied = (case repair_result of
                                 None \<Rightarrow> 0
                               | Some r \<Rightarrow> int (length (get_applied_repairs r))) \<rparr>,
          \<lparr> static_history = h2, repair_agent = ra \<rparr>))"

section \<open>MemoryManager.add\_repair\_result (memory/memory\_manager.py)\<close>

text \<open>
  The project memory's repair history and success rates. The repair result is a
  dictionary; the entry appended to the long-term memory is left out.
\<close>

fun py_truthy :: "pyval \<Rightarrow> bool" where
  "py_truthy PyNone = False"
| "py_truthy (PyBool b) = b"
| "py_truthy (PyInt i) = (i \<noteq> 0)"
| "py_truthy (PyStr s) = (s \<noteq> [])"

record ProjectMemory =
  pm_repair_history :: "string \<rightharpoonup> (string \<times> pyval) list \<times> pyval"
  success_rates :: "pyval \<rightharpoonup> pyfloat"

definition dict_get :: "(string \<times> pyval) list \<Rightarrow> string \<Rightarrow> pyval \<Rightarrow> pyval" where
  "dict_get d key dflt = (case map_of d key of None \<Rightarrow> dflt | Some v \<Rightarrow> v)"

definition add_repair_result ::
  "ProjectMemory \<Rightarrow> string \<Rightarrow> (string \<times> pyval) list \<Rightarrow> ProjectMemory" where
  "add_repair_result pm issue_id repair_result =
     (let history = (pm_repair_history pm)
            (issue_id \<mapsto> (repair_result, dict_get repair_result ''success'' (PyBool False)));
          strategy_key = dict_get repair_result ''strategy'' (PyStr ''unknown'');
          current_rate = (case success_rates pm strategy_key of
                            None \<Rightarrow> fl (5 / 10)
                          | Some r \<Rightarrow> r);
          succeeded = py_truthy (dict_get repair_result ''success'' (PyBool False));
          new_rate = py_fadd (py_fmul current_rate (fl (9 / 10)))
                       (py_fmul (if succeeded then 1 else 0) (fl (1 / 10)))
      in \<lparr> pm_repair_history = history,
           success_rates = (success_rates pm)(strategy_key \<mapsto> new_rate) \<rparr>)"

section \<open>Configuration (core/config.py)\<close>

text \<open>
  The values a field of the configuration holds and the configuration file stores: the
  values of JSON other than objects, that is \<^verbatim>\<open>None\<close>, booleans, integers, floats,
  strings and lists. A dataclass does not check the types of its fields, so every field
  can hold any of them. A float here is a finite binary64 number, an infinity or NaN.
\<close>

datatype xfloat = Finite rat | PosInf | NegInf | NaN

datatype json = JNull | JBool bool | JInt int | JFloat xfloat | JStr string | JList "json list"

text \<open>The number a boolean, an integer or a float stands for in a comparison.\<close>

fun num_of :: "json \<Rightarrow> xfloat option" where
  "num_of (JBool b) = Some (Finite (if b then 1 else 0))"
| "num_of (JInt i) = Some (Finite (of_int i))"
| "num_of (JFloat x) = Some x"
| "num_of _ = None"

text \<open>\<^verbatim>\<open>==\<close> and \<^verbatim>\<open><=\<close> on numbers: every comparison with NaN is false.\<close>

fun xfloat_eq :: "xfloat \<Rightarrow> xfloat \<Rightarrow> bool" where
  "xfloat_eq (Finite a) (Finite b) = (a = b)"
| "xfloat_eq PosInf PosInf = True"
| "xfloat_eq NegInf NegInf = True"
| "xfloat_eq _ _ = False"

fun xfloat_le :: "xfloat \<Rightarrow> xfloat \<Rightarrow> bool" where
  "xfloat_le NaN _ = False"
| "xfloat_le _ NaN = False"
| "xfloat_le NegInf _ = True"
| "xfloat_le _ PosInf = True"
| "xfloat_le (Finite a) (Finite b) = (a \<le> b)"
| "xfloat_le _ _ = False"

text \<open>
  \<^verbatim>\<open>a == b\<close> on two distinct objects: numbers compare by value whatever their type,
  strings and \<^verbatim>\<open>None\<close> with their like, lists element by element.
\<close>

fun py_eq :: "json \<Rightarrow> json \<Rightarrow> bool" where
  "py_eq (JList xs) (JList ys) = list_all2 py_eq xs ys"
| "py_eq (JList xs) _ = False"
| "py_eq _ (JList ys) = False"
| "py_eq (JStr s) (JStr t) = (s = t)"
| "py_eq JNull JNull = True"
| "py_eq a b =
     (case (num_of a, num_of b) of
        (Some x, Some y) \<Rightarrow> xfloat_eq x y
      | _ \<Rightarrow> False)"

text \<open>\<^verbatim>\<open>a <= b\<close> where one side is a number: the other side has to be a number as well.\<close>

definition py_le :: "json \<Rightarrow> json \<Rightarrow> py_error + bool" where
  "py_le a b =
     (case (num_of a, num_of b) of
        (Some x, Some y) \<Rightarrow> Inr (xfloat_le x y)
      | _ \<Rightarrow> Inl (TypeError ''<= not supported between these types''))"

text \<open>The truth value of a field.\<close>

fun json_truthy :: "json \<Rightarrow> bool" where
  "json_truthy JNull = False"
| "json_truthy (JBool b) = b"
| "json_truthy (JInt i) = (i \<noteq> 0)"
| "json_truthy (JFloat x) = (x \<noteq> Finite 0)"
| "json_truthy (JStr s) = (s \<noteq> [])"
| "json_truthy (JList xs) = (xs \<noteq> [])"

text \<open>
  \<^verbatim>\<open>AgentConfig\<close>, the dataclass of core/config.py, with its fields in the order of
  their declaration.
\<close>

record AgentConfig =
  name :: json
  version :: json
  enabled :: json
  log_level :: json
  timeout :: json
  max_memory :: json
  max_cpu_usage :: json
  max_file_size :: json
  supported_languages :: json
  working_directory :: json
  enable_security_analysis :: json
  enable_quality_analysis :: json
  enable_performance_analysis :: json
  enable_complexity_analysis :: json
  enable_auto_repair :: json
  repair_confidence_threshold :: json
  max_repair_attempts :: json
  enable_test_generation :: json
  test_framework :: json
  test_timeout :: json
  max_test_cases :: json
  ai_provider :: json
  ai_model :: json
  ai_api_key :: json
  ai_temperature :: json
  ai_max_tokens :: json
  output_format :: json
  output_directory :: json
  create_report :: json
  verbose_output :: json

text \<open>
  \<^verbatim>\<open>__post_init__\<close>; \<open>cwd\<close> is what \<^verbatim>\<open>os.getcwd()\<close> returns. The comparison of the timeout
  and the chained comparison of the threshold raise \<^verbatim>\<open>TypeError\<close> on a value that is no
  number.
\<close>

definition valid_levels :: "string list" where
  "valid_levels = [''DEBUG'', ''INFO'', ''WARNING'', ''ERROR'', ''CRITICAL'']"

definition in_valid_levels :: "json \<Rightarrow> bool" where
  "in_valid_levels v = list_ex (\<lambda>level. py_eq v (JStr level)) valid_levels"

definition chained_le :: "json \<Rightarrow> json \<Rightarrow> json \<Rightarrow> py_error + bool" where
  "chained_le a b c =
     (case py_le a b of
        Inl e \<Rightarrow> Inl e
      | Inr first \<Rightarrow> if first then py_le b c else Inr False)"

definition post_init :: "string \<Rightarrow> AgentConfig \<Rightarrow> py_error + AgentConfig" where
  "post_init cwd cfg =
     (let c1 = (if \<not> json_truthy (working_directory cfg)
                then cfg\<lparr>working_directory := JStr cwd\<rparr> else cfg);
          c2 = (if \<not> in_valid_levels (log_level c1) then c1\<lparr>log_level := JStr ''INFO''\<rparr> else c1)
      in case py_le (timeout c2) (JInt 0) of
           Inl e \<Rightarrow> Inl e
         | Inr not_positive \<Rightarrow>
             (let c3 = (if not_positive then c2\<lparr>timeout := JInt 300\<rparr> else c2)
              in case chained_le (JFloat (Finite 0)) (repair_confidence_threshold c3)
                        (JFloat (Finite 1)) of
                   Inl e \<Rightarrow> Inl e
                 | Inr in_range \<Rightarrow>
                     Inr (if \<not> in_range
                          then c3\<lparr>repair_confidence_threshold := JFloat (Finite (fl (7 / 10)))\<rparr>
                          else c3)))"

text \<open>
  The configuration file holds one JSON object. \<^verbatim>\<open>json.dump(config.__dict__)\<close> writes the
  fields in their order, NaN and the infinities included; \<^verbatim>\<open>json.load\<close> reads the values
  back as new objects.
\<close>

definition to_dict :: "AgentConfig \<Rightarrow> (string \<times> json) list" where
  "to_dict cfg =
     [(''name'', name cfg),
      (''version'', version cfg),
      (''enabled'', enabled cfg),
      (''log_level'', log_level cfg),
      (''timeout'', timeout cfg),
      (''max_memory'', max_memory cfg),
      (''max_cpu_usage'', max_cpu_usage cfg),
      (''max_file_size'', max_file_size cfg),
      (''supported_languages'', supported_languages cfg),
      (''working_directory'', working_directory cfg),
      (''enable_security_analysis'', enable_security_analysis cfg),
      (''enable_quality_analysis'', enable_quality_analysis cfg),
      (''enable_performance_analysis'', enable_performance_analysis cfg),
      (''enable_complexity_analysis'', enable_complexity_analysis cfg),
      (''enable_auto_repair'', enable_auto_repair cfg),
      (''repair_confidence_threshold'', repair_confidence_threshold cfg),
      (''max_repair_attempts'', max_repair_attempts cfg),
      (''enable_test_generation'', enable_test_generation cfg),
      (''test_framework'', test_framework cfg),
      (''test_timeout'', test_timeout cfg),
      (''max_test_cases'', max_test_cases cfg),
      (''ai_provider'', ai_provider cfg),
      (''ai_model'', ai_model cfg),
      (''ai_api_key'', ai_api_key cfg),
      (''ai_temperature'', ai_temperature cfg),
      (''ai_max_tokens'', ai_max_tokens cfg),
      (''output_format'', output_format cfg),
      (''output_directory'', output_directory cfg),
      (''create_report'', create_report cfg),
      (''verbose_output'', verbose_output cfg)]"

text \<open>
  \<^verbatim>\<open>AgentConfig(**config_data)\<close>: a key that is not a field and a missing \<^verbatim>\<open>name\<close> raise
  \<^verbatim>\<open>TypeError\<close>; a missing field takes its default; the values are taken as they are.
\<close>

definition AgentConfig_fields :: "string list" where
  "AgentConfig_fields =
     [''name'',
      ''version'',
      ''enabled'',
      ''log_level'',
      ''timeout'',
      ''max_memory'',
      ''max_cpu_usage'',
      ''max_file_size'',
      ''supported_languages'',
      ''working_directory'',
      ''enable_security_analysis'',
      ''enable_quality_analysis'',
      ''enable_performance_analysis'',
      ''enable_complexity_analysis'',
      ''enable_auto_repair'',
      ''repair_confidence_threshold'',
      ''max_repair_attempts'',
      ''enable_test_generation'',
      ''test_framework'',
      ''test_timeout'',
      ''max_test_cases'',
      ''ai_provider'',
      ''ai_model'',
      ''ai_api_key'',
      ''ai_temperature'',
      ''ai_max_tokens'',
      ''output_format'',
      ''output_directory'',
      ''create_report'',
      ''verbose_output'']"

definition field_or :: "(string \<times> json) list \<Rightarrow> string \<Rightarrow> json \<Rightarrow> json" where
  "field_or d key dflt = (case map_of d key of None \<Rightarrow> dflt | Some v \<Rightarrow> v)"

text \<open>The fields the generated \<^verbatim>\<open>__init__\<close> assigns, before \<^verbatim>\<open>__post_init__\<close> runs.\<close>

definition AgentConfig_new :: "string \<Rightarrow> (string \<times> json) list \<Rightarrow> AgentConfig" where
  "AgentConfig_new cwd d =
     \<lparr> name = field_or d ''name'' (JNull),
       version = field_or d ''version'' (JStr ''1.0.0''),
       enabled = field_or d ''enabled'' (JBool True),
       log_level = field_or d ''log_level'' (JStr ''INFO''),
       timeout = field_or d ''timeout'' (JInt 300),
       max_memory = field_or d ''max_memory'' (JInt (1024 * 1024 * 1024)),
       max_cpu_usage = field_or d ''max_cpu_usage'' (JFloat (Finite (fl (8 / 10)))),
       max_file_size = field_or d ''max_file_size'' (JInt (10 * 1024 * 1024)),
       supported_languages = field_or d ''supported_languages'' (JList [JStr ''python'', JStr ''javascript'', JStr ''java'']),
       working_directory = field_or d ''working_directory'' (JStr cwd),
       enable_security_analysis = field_or d ''enable_security_analysis'' (JBool True),
       enable_quality_analysis = field_or d ''enable_quality_analysis'' (JBool True),
       enable_performance_analysis = field_or d ''enable_performance_analysis'' (JBool True),
       enable_complexity_analysis = field_or d ''enable_complexity_analysis'' (JBool True),
       enable_auto_repair = field_or d ''enable_auto_repair'' (JBool False),
       repair_confidence_threshold = field_or d ''repair_confidence_threshold'' (JFloat (Finite (fl (7 / 10)))),
       max_repair_attempts = field_or d ''max_repair_attempts'' (JInt 3),
       enable_test_generation = field_or d ''enable_test_generation'' (JBool True),
       test_framework = field_or d ''test_framework'' (JStr ''pytest''),
       test_timeout = field_or d ''test_timeout'' (JInt 60),
       max_test_cases = field_or d ''max_test_cases'' (JInt 100),
       ai_provider = field_or d ''ai_provider'' (JStr ''openai''),
       ai_model = field_or d ''ai_model'' (JStr ''gpt-3.5-turbo''),
       ai_api_key = field_or d ''ai_api_key'' (JNull),
       ai_temperature = field_or d ''ai_temperature'' (JFloat (Finite (fl (7 / 10)))),
       ai_max_tokens = field_or d ''ai_max_tokens'' (JInt 2000),
       output_format = field_or d ''output_format'' (JStr ''json''),
       output_directory = field_or d ''output_directory'' (JStr ''output''),
       create_report = field_or d ''create_report'' (JBool True),
       verbose_output = field_or d ''verbose_output'' (JBool False) \<rparr>"

definition AgentConfig_init :: "string \<Rightarrow> (string \<times> json) list \<Rightarrow> py_error + AgentConfig" where
  "AgentConfig_init cwd d =
     (if \<not> list_all (\<lambda>(key, v). List.member AgentConfig_fields key) d
      then Inl (TypeError ''unexpected keyword argument'')
      else if map_of d ''name'' = None then Inl (TypeError ''missing argument name'')
      else post_init cwd (AgentConfig_new cwd d))"

text \<open>
  \<^verbatim>\<open>ConfigManager\<close>: its file name and its cache. The file system maps a path to the
  content of the file there: a JSON object, or something \<^verbatim>\<open>json.load\<close> and the
  constructor do not accept.
\<close>

datatype file_content = JsonObject "(string \<times> json) list" | OtherContent

record ConfigManager =
  config_file :: string
  config_cache :: "AgentConfig option"

text \<open>
  The default configuration \<^verbatim>\<open>load_config\<close> falls back to. \<^verbatim>\<open>__post_init__\<close> changes
  nothing on it: its working directory is the default, \<^verbatim>\<open>os.getcwd()\<close>.
\<close>

definition default_AgentConfig :: "string \<Rightarrow> AgentConfig" where
  "default_AgentConfig cwd =
     AgentConfig_new cwd
       [(''name'', JStr ''DebugAgent''), (''version'', JStr ''1.0.0''),
        (''enabled'', JBool True), (''log_level'', JStr ''INFO'')]"

definition load_config ::
  "string \<Rightarrow> (string \<rightharpoonup> file_content) \<Rightarrow> ConfigManager \<Rightarrow> AgentConfig \<times> ConfigManager" where
  "load_config cwd fs mgr =
     (case config_cache mgr of
        Some cached \<Rightarrow> (cached, mgr)
      | None \<Rightarrow>
          (case (case fs (config_file mgr) of
                   Some (JsonObject config_data) \<Rightarrow> AgentConfig_init cwd config_data
                 | Some OtherContent \<Rightarrow> Inl ValueError
                 | None \<Rightarrow> Inl IOError) of
             Inr cfg \<Rightarrow> (cfg, mgr\<lparr>config_cache := Some cfg\<rparr>)
           | Inl e \<Rightarrow>
               (default_AgentConfig cwd,
                mgr\<lparr>config_cache := Some (default_AgentConfig cwd)\<rparr>)))"

text \<open>
  \<^verbatim>\<open>save_config\<close>; \<open>write_ok\<close> tells whether the file can be opened for writing. A failure
  is printed and changes nothing.
\<close>

definition save_config ::
  "bool \<Rightarrow> (string \<rightharpoonup> file_content) \<Rightarrow> ConfigManager \<Rightarrow> AgentConfig
     \<Rightarrow> (string \<rightharpoonup> file_content) \<times> ConfigManager" where
  "save_config write_ok fs mgr cfg =
     (if write_ok
      then (fs(config_file mgr \<mapsto> JsonObject (to_dict cfg)), mgr\<lparr>config_cache := Some cfg\<rparr>)
      else (fs, mgr))"

text \<open>Saving, clearing the cache and loading again.\<close>

definition save_clear_load ::
  "string \<Rightarrow> bool \<Rightarrow> (string \<rightharpoonup> file_content) \<Rightarrow> ConfigManager \<Rightarrow> AgentConfig \<Rightarrow> AgentConfig" where
  "save_clear_load cwd write_ok fs mgr cfg =
     (let (fs', mgr') = save_config write_ok fs mgr cfg
      in fst (load_config cwd fs' (mgr'\<lparr>config_cache := None\<rparr>)))"

section \<open>Notions of the specification\<close>

text \<open>
  ``Every attempted repair'': the results \<^verbatim>\<open>_repair_issue\<close> returns during the repair loop,
  one per issue and in the order of the issues, each computed on the code that is current
  when its issue is reached.
\<close>

fun attempted_repairs :: "externals \<Rightarrow> string \<Rightarrow> AnalysisResult list \<Rightarrow> RepairResult list" where
  "attempted_repairs ext current_code [] = []"
| "attempted_repairs ext current_code (issue # issues) =
     (let repair_result = repair_issue ext current_code issue
      in repair_result
         # attempted_repairs ext
             (if success repair_result then repaired_code repair_result else current_code)
             issues)"

text \<open>
  The function declarations of a code, \<^verbatim>\<open>def\<close> and \<^verbatim>\<open>async def\<close> alike, and the line on
  which a declaration stands. Among them the plain functions are the \<^verbatim>\<open>ast.FunctionDef\<close>
  nodes; the nodes that give a test are those and the classes.
\<close>

fun is_function_declaration :: "ast_node \<Rightarrow> bool" where
  "is_function_declaration (FunctionDef f args l) = True"
| "is_function_declaration (AsyncFunctionDef f args l) = True"
| "is_function_declaration _ = False"

fun is_plain_function :: "ast_node \<Rightarrow> bool" where
  "is_plain_function (FunctionDef f args l) = True"
| "is_plain_function _ = False"

fun gives_test :: "ast_node \<Rightarrow> bool" where
  "gives_test (FunctionDef f args l) = True"
| "gives_test (ClassDef c l) = True"
| "gives_test _ = False"

fun declaration_input :: "ast_node \<Rightarrow> input_data" where
  "declaration_input (FunctionDef f args l) = FunctionInput f args (generate_test_inputs args)"
| "declaration_input (ClassDef c l) = ClassInput c"
| "declaration_input _ = GenericInput []"

text \<open>
  Two configurations are field-for-field equal when \<^verbatim>\<open>==\<close> holds between the values of
  each field. A value is free of NaN when neither it nor an element of it is NaN.
\<close>

definition fields_equal :: "AgentConfig \<Rightarrow> AgentConfig \<Rightarrow> bool" where
  "fields_equal a b = list_all2 (\<lambda>(key, v) (key', v'). py_eq v v') (to_dict a) (to_dict b)"

fun nan_free :: "json \<Rightarrow> bool" where
  "nan_free (JFloat x) = (x \<noteq> NaN)"
| "nan_free (JList xs) = list_all nan_free xs"
| "nan_free _ = True"

definition no_nan :: "AgentConfig \<Rightarrow> bool" where
  "no_nan cfg = list_all (\<lambda>(key, v). nan_free v) (to_dict cfg)"

section \<open>Inputs of the examples\<close>

text \<open>The line \<^verbatim>\<open>password = "admin123"\<close>.\<close>

definition password_line :: string where
  "password_line = ''password = '' @ [CHR 0x22] @ ''admin123'' @ [CHR 0x22]"

text \<open>
  An environment for the examples: no path exists, every text parses to a module
  without declarations, the two regular expressions match nowhere, and \<^verbatim>\<open>sum\<close> adds
  from left to right.
\<close>

definition example_externals :: externals where
  "example_externals =
     \<lparr> re_sub_password = (\<lambda>line. line), re_sub_concat = (\<lambda>line. line),
       ast_walk = (\<lambda>code. Inr [OtherNode]), float_sum = foldl py_fadd 0,
       path_read = (\<lambda>p. None) \<rparr>"

text \<open>An issue as the repair agent derives it from a failed test.\<close>

definition example_logic_issue :: AnalysisResult where
  "example_logic_issue =
     test_failure_issue \<lparr> test_id = ''t'', status = ''failed'', message = Some [], error = None \<rparr>"

text \<open>
  Three codes and the nodes \<^verbatim>\<open>ast.walk\<close> yields for them; the nodes that are no
  declarations come last. The first has the eighty lines \<^verbatim>\<open>def f0(): pass\<close> to
  \<^verbatim>\<open>def f79(): pass\<close>. The second has the same lines with \<^verbatim>\<open>async def\<close>. The third is
  the class \<^verbatim>\<open>C\<close> with the forty methods \<^verbatim>\<open>def m0(self): pass\<close> to
  \<^verbatim>\<open>def m39(self): pass\<close> on the lines 2 to 41, followed by the forty functions
  \<^verbatim>\<open>def t0(): pass\<close> to \<^verbatim>\<open>def t39(): pass\<close> on the lines 42 to 81.
\<close>

definition numbered_lines :: "string \<Rightarrow> string \<Rightarrow> nat \<Rightarrow> string" where
  "numbered_lines before after n =
     concat (map (\<lambda>i. before @ str_of_nat i @ after @ [CHR 0x0A]) [0..<n])"

definition eighty_functions_code :: string where
  "eighty_functions_code = numbered_lines ''def f'' ''(): pass'' 80"

definition eighty_functions :: "ast_node list" where
  "eighty_functions =
     OtherNode # map (\<lambda>i. FunctionDef (''f'' @ str_of_nat i) [] (int i + 1)) [0..<80]
     @ replicate 160 OtherNode"

definition eighty_async_code :: string where
  "eighty_async_code = numbered_lines ''async def f'' ''(): pass'' 80"

definition eighty_async_functions :: "ast_node list" where
  "eighty_async_functions =
     OtherNode # map (\<lambda>i. AsyncFunctionDef (''f'' @ str_of_nat i) [] (int i + 1)) [0..<80]
     @ replicate 160 OtherNode"

definition class_then_functions_code :: string where
  "class_then_functions_code =
     ''class C:'' @ [CHR 0x0A] @ numbered_lines ''    def m'' ''(self): pass'' 40
     @ numbered_lines ''def t'' ''(): pass'' 40"

definition class_then_functions :: "ast_node list" where
  "class_then_functions =
     OtherNode # ClassDef ''C'' 1
     # map (\<lambda>i. FunctionDef (''t'' @ str_of_nat i) [] (int i + 42)) [0..<40]
     @ map (\<lambda>i. FunctionDef (''m'' @ str_of_nat i) [''self''] (int i + 2)) [0..<40]
     @ replicate 200 OtherNode"

text \<open>The example environment with a parser that gives the nodes \<open>nodes\<close>.\<close>

definition parsing_as :: "ast_node list \<Rightarrow> externals" where
  "parsing_as nodes = example_externals\<lparr>ast_walk := \<lambda>code. Inr nodes\<rparr>"

text \<open>A coordinator whose agents have not run yet.\<close>

definition initial_coordinator :: coordinator_state where
  "initial_coordinator =
     \<lparr> static_history = [], repair_agent = \<lparr> test_counter = 0, repair_history = [] \<rparr> \<rparr>"

text \<open>
  A configuration manager on \<^verbatim>\<open>config.json\<close>, and three configurations: one with
  fields that differ from the defaults; the default one after
  \<^verbatim>\<open>update_config({'repair_confidence_threshold': 1.5})\<close>, which sets the attribute on
  the cached instance and saves it; and \<^verbatim>\<open>AgentConfig(name='x', ai_temperature=float('nan'))\<close>.
\<close>

definition example_manager :: ConfigManager where
  "example_manager = \<lparr> config_file = ''config.json'', config_cache = None \<rparr>"

definition custom_config :: AgentConfig where
  "custom_config =
     (default_AgentConfig ''/work'')
       \<lparr> name := JStr ''Reviewer'', log_level := JStr ''DEBUG'', timeout := JInt 45,
         max_cpu_usage := JFloat (Finite (1 / 2)), supported_languages := JList [JStr ''python''],
         working_directory := JStr ''/srv/agent'', enable_auto_repair := JBool True,
         repair_confidence_threshold := JFloat (Finite (fl (9 / 10))),
         ai_api_key := JStr ''key'', ai_temperature := JFloat (Finite 0),
         verbose_output := JBool True \<rparr>"

definition out_of_range_config :: AgentConfig where
  "out_of_range_config =
     (default_AgentConfig ''/work'')\<lparr>repair_confidence_threshold := JFloat (Finite (3 / 2))\<rparr>"

definition nan_config :: AgentConfig where
  "nan_config = (default_AgentConfig ''/work'')\<lparr>name := JStr ''x'', ai_temperature := JFloat NaN\<rparr>"

text \<open>An empty project memory, and the dictionaries of a successful and of a failed repair.\<close>

definition empty_memory :: ProjectMemory where
  "empty_memory = \<lparr> pm_repair_history = Map.empty, success_rates = Map.empty \<rparr>"

definition success_result :: "(string \<times> pyval) list" where
  "success_result = [(''strategy'', PyStr ''security''), (''success'', PyBool True)]"

definition failure_result :: "(string \<times> pyval) list" where
  "failure_result = [(''strategy'', PyStr ''security''), (''success'', PyBool False)]"

section \<open>Properties\<close>

subsection \<open>The overall score\<close>

lemma add_penalties_sum:
  "add_penalties k t issues = t + (\<Sum>i\<leftarrow>issues. severity_weights (severity i) * k)"
  by (induction issues arbitrary: t) simp_all

text \<open>
  C3: one high-severity security issue and nothing else scores 85; in general the score
  is \<open>max 0 (100 - penalty)\<close>, where every security issue adds five times its severity
  weight to the penalty, every quality issue twice and every performance issue three
  times, with the weights 1, 2, 3 and 5 for low, medium, high and critical. The score is
  an integer, which rounding to two decimals leaves as it is.
\<close>

theorem overall_score_formula:
  "calculate_overall_score [issue\<lparr>severity := HIGH\<rparr>] [] [] = 85
   \<and> calculate_overall_score sec qual perf =
       max 0 (100 - ((\<Sum>i\<leftarrow>sec. severity_weights (severity i) * 5)
                     + (\<Sum>i\<leftarrow>qual. severity_weights (severity i) * 2)
                     + (\<Sum>i\<leftarrow>perf. severity_weights (severity i) * 3)))
   \<and> severity_weights LOW = 1 \<and> severity_weights MEDIUM = 2
   \<and> severity_weights HIGH = 3 \<and> severity_weights CRITICAL = 5"
  by (simp add: calculate_overall_score_def add_penalties_sum)

subsection \<open>The analyzers on one line\<close>

lemma security_password_line:
  "SecurityAnalyzer_analyze password_line fp = [hardcoded_password_issue fp 1]"
  by code_simp

lemma quality_password_line: "QualityAnalyzer_analyze password_line fp = []"
  by code_simp

lemma performance_password_line: "PerformanceAnalyzer_analyze password_line fp = []"
  by code_simp

text \<open>
  C4: on the single line \<^verbatim>\<open>password = "admin123"\<close> the security analyzer reports exactly
  one issue, of severity high, confidence 0.8 and vulnerability type
  \<^verbatim>\<open>hardcoded_credentials\<close>; the quality and the performance analyzer report nothing.
\<close>

theorem password_line_analysis:
  "(\<exists>issue. SecurityAnalyzer_analyze password_line fp = [issue]
        \<and> severity issue = HIGH \<and> confidence issue = fl (8 / 10)
        \<and> vulnerability_type (extra issue) = Some ''hardcoded_credentials'')
   \<and> QualityAnalyzer_analyze password_line fp = []
   \<and> PerformanceAnalyzer_analyze password_line fp = []"
  by (simp add: security_password_line quality_password_line performance_password_line
        hardcoded_password_issue_def)

subsection \<open>Line numbers of the reported issues\<close>

lemma security_loop_lines:
  "issue \<in> set (security_loop fp i lines)
   \<Longrightarrow> i \<le> line_number issue \<and> line_number issue < i + int (length lines)"
proof (induction lines arbitrary: i)
  case Nil
  then show ?case by simp
next
  case (Cons line rest)
  from Cons.prems have "issue \<in> set (security_line fp i line)
      \<or> issue \<in> set (security_loop fp (i + 1) rest)" by simp
  then show ?case
  proof
    assume "issue \<in> set (security_line fp i line)"
    then have "line_number issue = i"
      by (auto simp: security_line_def hardcoded_password_issue_def sql_injection_issue_def
            split: if_splits)
    then show ?thesis by simp
  next
    assume "issue \<in> set (security_loop fp (i + 1) rest)"
    from Cons.IH [OF this] show ?thesis by simp
  qed
qed

lemma quality_loop_lines:
  "issue \<in> set (quality_loop fp i lines)
   \<Longrightarrow> i \<le> line_number issue \<and> line_number issue < i + int (length lines)"
proof (induction lines arbitrary: i)
  case Nil
  then show ?case by simp
next
  case (Cons line rest)
  have "line_number issue = i" if "issue \<in> set (quality_line fp i line)"
    using that
    by (auto simp: quality_line_def todo_issue_def long_line_issue_def split: if_splits)
  moreover have "i + 1 \<le> line_number issue
      \<and> line_number issue < i + 1 + int (length rest)"
    if "issue \<in> set (quality_loop fp (i + 1) rest)"
    using Cons.IH [OF that] .
  ultimately show ?case using Cons.prems by auto
qed

lemma performance_loop_lines:
  "issue \<in> set (performance_loop fp i lines)
   \<Longrightarrow> i \<le> line_number issue \<and> line_number issue < i + int (length lines)"
proof (induction lines arbitrary: i)
  case Nil
  then show ?case by simp
next
  case (Cons line rest)
  then show ?case
    by (fastforce simp: performance_line_def string_concat_issue_def split: if_splits)
qed

lemma py_index_in_range:
  "1 \<le> n \<Longrightarrow> n \<le> int (length xs) \<Longrightarrow> py_index xs (n - 1) = Inr (xs ! nat (n - 1))"
  by (simp add: py_index_def norm_index_def)

text \<open>
  C10: every issue the security, quality and performance analyzers report for a code
  carries a line number between 1 and the number of lines of that code, so reading the
  list of lines at the line number minus one succeeds.
\<close>

theorem analyzer_line_numbers_in_range:
  assumes "issue \<in> set (SecurityAnalyzer_analyze code fp @ QualityAnalyzer_analyze code fp
                          @ PerformanceAnalyzer_analyze code fp)"
  shows "1 \<le> line_number issue \<and> line_number issue \<le> int (length (py_split_nl code))
         \<and> py_index (py_split_nl code) (line_number issue - 1)
             = Inr (py_split_nl code ! nat (line_number issue - 1))"
proof -
  have "1 \<le> line_number issue \<and> line_number issue < 1 + int (length (py_split_nl code))"
    using assms security_loop_lines quality_loop_lines performance_loop_lines
    unfolding SecurityAnalyzer_analyze_def QualityAnalyzer_analyze_def
      PerformanceAnalyzer_analyze_def
    by (metis Un_iff set_append)
  then show ?thesis by (simp add: py_index_in_range)
qed

theorem analyzer_line_numbers_witness:
  "hardcoded_password_issue None 1
     \<in> set (SecurityAnalyzer_analyze password_line None @ QualityAnalyzer_analyze password_line None
             @ PerformanceAnalyzer_analyze password_line None)
   \<and> 1 \<le> line_number (hardcoded_password_issue None 1)
   \<and> line_number (hardcoded_password_issue None 1) \<le> int (length (py_split_nl password_line))"
proof -
  have m: "hardcoded_password_issue None 1
     \<in> set (SecurityAnalyzer_analyze password_line None @ QualityAnalyzer_analyze password_line None
             @ PerformanceAnalyzer_analyze password_line None)"
    by (simp add: security_password_line)
  from analyzer_line_numbers_in_range [OF m] m show ?thesis by simp
qed

subsection \<open>Repair strategies on an issue they do not recognize\<close>

lemma failed_repair_fields:
  "success (failed_repair code se c n) = False \<and> repaired_code (failed_repair code se c n) = code"
  by (simp add: failed_repair_def)

text \<open>
  C5: when the line number of the issue addresses a line of the code, each of the four
  strategies answers an issue it does not recognize with a result whose success flag is
  false and whose repaired code is the code it was given. The security strategy
  recognizes an issue by \<^verbatim>\<open>hardcoded_credentials\<close> in the metadata entry
  \<^verbatim>\<open>vulnerability_type\<close>, the quality strategy by the field \<^verbatim>\<open>quality_metric\<close> being
  \<^verbatim>\<open>line_length\<close>, the performance strategy by \<^verbatim>\<open>string_concatenation\<close> in the metadata
  entry \<^verbatim>\<open>performance_metric\<close>; the logic strategy recognizes nothing.
\<close>

theorem unrecognized_issue_leaves_code:
  assumes "1 \<le> line_number issue" and "line_number issue \<le> int (length (py_split_nl code))"
  shows "(\<not> py_contains ''hardcoded_credentials'' (metadata_str issue ''vulnerability_type'')
          \<longrightarrow> (\<exists>r. SecurityRepairStrategy_repair ext code issue = Inr r
                  \<and> \<not> success r \<and> repaired_code r = code))
       \<and> (quality_metric (extra issue) \<noteq> Some ''line_length''
          \<longrightarrow> (\<exists>r. QualityRepairStrategy_repair code issue = Inr r
                  \<and> \<not> success r \<and> repaired_code r = code))
       \<and> (\<not> py_contains ''string_concatenation'' (metadata_str issue ''performance_metric'')
          \<longrightarrow> (\<exists>r. PerformanceRepairStrategy_repair ext code issue = Inr r
                  \<and> \<not> success r \<and> repaired_code r = code))
       \<and> (\<exists>r. LogicRepairStrategy_repair code issue = Inr r
                  \<and> \<not> success r \<and> repaired_code r = code)"
proof -
  have idx: "py_index (py_split_nl code) (line_number issue - 1)
      = Inr (py_split_nl code ! nat (line_number issue - 1))"
    using assms by (rule py_index_in_range)
  show ?thesis
    by (simp add: SecurityRepairStrategy_repair_def QualityRepairStrategy_repair_def
          PerformanceRepairStrategy_repair_def LogicRepairStrategy_repair_def idx
          failed_repair_fields)
qed

theorem unrecognized_issue_witness:
  "1 \<le> line_number (hardcoded_password_issue None 1)
   \<and> line_number (hardcoded_password_issue None 1) \<le> int (length (py_split_nl password_line))
   \<and> \<not> py_contains ''hardcoded_credentials''
         (metadata_str (hardcoded_password_issue None 1) ''vulnerability_type'')
   \<and> quality_metric (extra (hardcoded_password_issue None 1)) \<noteq> Some ''line_length''
   \<and> \<not> py_contains ''string_concatenation''
         (metadata_str (hardcoded_password_issue None 1) ''performance_metric'')
   \<and> (\<exists>r. SecurityRepairStrategy_repair example_externals password_line
              (hardcoded_password_issue None 1) = Inr r
          \<and> \<not> success r \<and> repaired_code r = password_line)
   \<and> (\<exists>r. QualityRepairStrategy_repair password_line (hardcoded_password_issue None 1) = Inr r
          \<and> \<not> success r \<and> repaired_code r = password_line)
   \<and> (\<exists>r. PerformanceRepairStrategy_repair example_externals password_line
              (hardcoded_password_issue None 1) = Inr r
          \<and> \<not> success r \<and> repaired_code r = password_line)"
proof -
  have h1: "1 \<le> line_number (hardcoded_password_issue None 1)"
    by (simp add: hardcoded_password_issue_def)
  have h2: "line_number (hardcoded_password_issue None 1)
      \<le> int (length (py_split_nl password_line))"
    by code_simp
  have h3: "\<not> py_contains ''hardcoded_credentials''
         (metadata_str (hardcoded_password_issue None 1) ''vulnerability_type'')"
    by code_simp
  have h4: "quality_metric (extra (hardcoded_password_issue None 1)) \<noteq> Some ''line_length''"
    by (simp add: hardcoded_password_issue_def)
  have h5: "\<not> py_contains ''string_concatenation''
         (metadata_str (hardcoded_password_issue None 1) ''performance_metric'')"
    by code_simp
  from unrecognized_issue_leaves_code [OF h1 h2, of example_externals] h1 h2 h3 h4 h5
  show ?thesis by simp
qed

subsection \<open>The improvement metrics\<close>

lemma calculate_improvement_raises:
  "calculate_improvement initial_results final_results = Inl (AttributeError ''passed_results'')"
  by (simp add: calculate_improvement_def TestResults_getattr_def)

text \<open>
  C1: the claim asks for an \<^verbatim>\<open>improvement_metrics\<close> entry in the result of every call
  that reaches the reporting step. The computation of that entry reads the attribute
  \<^verbatim>\<open>passed_results\<close>, which a \<^verbatim>\<open>TestResults\<close> object does not have: it raises for all test
  results, every call of \<^verbatim>\<open>analyze_and_repair\<close> ends in the error map, and so does the
  call on the code \<^verbatim>\<open>x = 1\<close> with an empty list of issues.
\<close>

theorem improvement_metrics_never_reported:
  "calculate_improvement initial_results final_results = Inl (AttributeError ''passed_results'')
   \<and> (\<exists>e. fst (TestDrivenRepairAgent_analyze_and_repair ext st code issues) = ErrorMap e)
   \<and> fst (TestDrivenRepairAgent_analyze_and_repair example_externals
             \<lparr> test_counter = 0, repair_history = [] \<rparr> ''x = 1'' (Some []))
       = ErrorMap \<lparr> em_error = AttributeError ''passed_results'', em_success = False,
                    em_agent = ''TestDrivenRepairAgent'',
                    em_context = [(''code_length'', PyInt 5)] \<rparr>"
proof -
  have "\<exists>e. fst (TestDrivenRepairAgent_analyze_and_repair ext st code issues) = ErrorMap e"
    by (auto simp: TestDrivenRepairAgent_analyze_and_repair_def build_result_def
          calculate_improvement_raises Let_def split: prod.splits option.splits sum.splits)
  moreover have "fst (TestDrivenRepairAgent_analyze_and_repair example_externals
             \<lparr> test_counter = 0, repair_history = [] \<rparr> ''x = 1'' (Some []))
       = ErrorMap \<lparr> em_error = AttributeError ''passed_results'', em_success = False,
                    em_agent = ''TestDrivenRepairAgent'',
                    em_context = [(''code_length'', PyInt 5)] \<rparr>"
    by code_simp
  ultimately show ?thesis by (simp add: calculate_improvement_raises)
qed

subsection \<open>The repair loop and the confidence\<close>

lemma repair_loop_attempted:
  "repair_loop ext current acc issues =
     (foldl (\<lambda>c rr. if success rr then repaired_code rr else c) current
        (attempted_repairs ext current issues),
      acc @ filter success (attempted_repairs ext current issues))"
  by (induction issues arbitrary: current acc) (simp_all add: Let_def)

text \<open>
  C2, as the code has it: the repair loop accumulates the successful ones among the
  attempted repairs, in their order, and drops the failed ones; the current code is the
  repaired code of the last successful attempt, or the given code when none succeeded;
  the confidence computed from the accumulated repairs is 0 for none and otherwise the
  sum of their confidence values divided by their number, in float arithmetic.
\<close>

theorem repair_loop_keeps_successful:
  "snd (repair_loop ext code [] issues) = filter success (attempted_repairs ext code issues)
   \<and> fst (repair_loop ext code [] issues)
       = foldl (\<lambda>current rr. if success rr then repaired_code rr else current) code
           (attempted_repairs ext code issues)
   \<and> calculate_repair_confidence ext [] = 0
   \<and> calculate_repair_confidence ext (rr # rrs)
       = fl (float_sum ext (map repair_confidence (rr # rrs)) / of_nat (length (rr # rrs)))"
  by (simp add: repair_loop_attempted calculate_repair_confidence_def)

text \<open>
  C2 as stated fails on one issue of type logic: the attempt is made and fails with
  confidence 0.1, nothing is accumulated, and the confidence computed is 0, not the mean
  0.1 of the attempted repairs.
\<close>

theorem repair_accumulation_counterexample:
  "attempted_repairs example_externals ''x = 1'' [example_logic_issue]
     = [failed_repair ''x = 1'' ''Logic repair requires manual intervention'' (fl (1 / 10))
          ''logic_manual'']
   \<and> snd (repair_loop example_externals ''x = 1'' [] [example_logic_issue]) = []
   \<and> snd (repair_loop example_externals ''x = 1'' [] [example_logic_issue])
       \<noteq> attempted_repairs example_externals ''x = 1'' [example_logic_issue]
   \<and> calculate_repair_confidence example_externals
        (snd (repair_loop example_externals ''x = 1'' [] [example_logic_issue])) = 0
   \<and> fl (float_sum example_externals
            (map repair_confidence
               (attempted_repairs example_externals ''x = 1'' [example_logic_issue])) / 1)
       = 3602879701896397 / 36028797018963968
   \<and> calculate_repair_confidence example_externals
        (snd (repair_loop example_externals ''x = 1'' [] [example_logic_issue]))
       \<noteq> fl (float_sum example_externals
            (map repair_confidence
               (attempted_repairs example_externals ''x = 1'' [example_logic_issue])) / 1)"
  by code_simp

subsection \<open>The cap on generated tests\<close>

lemma generate_loop_inputs:
  "map tc_input_data (fst (generate_loop c nodes acc))
     = map tc_input_data acc @ map declaration_input (filter gives_test nodes)"
  by (induction c nodes acc rule: generate_loop.induct)
     (simp_all add: generate_function_test_def generate_class_tests_def)

lemma generate_loop_length:
  "length (fst (generate_loop c nodes acc)) = length acc + length (filter gives_test nodes)"
  by (induction c nodes acc rule: generate_loop.induct)
     (simp_all add: generate_class_tests_def)

lemma plain_functions_give_tests:
  "length (filter is_plain_function nodes) \<le> length (filter gives_test nodes)"
proof (induction nodes)
  case Nil
  then show ?case by simp
next
  case (Cons n nodes)
  then show ?case by (cases n) simp_all
qed

text \<open>
  C7 as stated fails in two ways. Eighty functions declared with \<^verbatim>\<open>async def\<close> give no
  test at all. And for the class with forty methods followed by forty functions, the
  fifty tests are the one of the class, those of the functions \<^verbatim>\<open>t0\<close> to \<^verbatim>\<open>t39\<close> and
  those of the methods \<^verbatim>\<open>m0\<close> to \<^verbatim>\<open>m8\<close>: the method \<^verbatim>\<open>m9\<close>, declared on line 11, is
  dropped, and the function \<^verbatim>\<open>t0\<close>, declared on line 42, is kept.
\<close>

theorem test_case_cap_counterexample:
  "length (filter is_function_declaration eighty_async_functions) = 80
   \<and> fst (generate_tests (parsing_as eighty_async_functions) 0 eighty_async_code) = []
   \<and> length (filter is_function_declaration class_then_functions) = 80
   \<and> map tc_name (fst (generate_tests (parsing_as class_then_functions) 0
                          class_then_functions_code))
       = ''Test C initialization''
         # map (\<lambda>i. ''Test t'' @ str_of_nat i) [0..<40]
         @ map (\<lambda>i. ''Test m'' @ str_of_nat i) [0..<9]
   \<and> List.member class_then_functions (FunctionDef ''m9'' [''self''] 11)
   \<and> List.member class_then_functions (FunctionDef ''t0'' [] 42)"
  by code_simp

text \<open>
  C7, as the code has it: for a code that parses and has at least 50 plain function
  definitions (\<^verbatim>\<open>ast.FunctionDef\<close> nodes), 80 for one, \<^verbatim>\<open>generate_tests\<close> returns exactly
  50 test cases, those of the first 50 plain functions and classes in the order in which
  \<^verbatim>\<open>ast.walk\<close> yields them; and it never returns more than 50.
\<close>

theorem test_case_cap:
  assumes "ast_walk ext code = Inr nodes" and "50 \<le> length (filter is_plain_function nodes)"
  shows "length (fst (generate_tests ext c code)) = 50
       \<and> map tc_input_data (fst (generate_tests ext c code))
           = take 50 (map declaration_input (filter gives_test nodes))
       \<and> length (fst (generate_tests ext' c' code')) \<le> 50"
proof -
  have le: "50 \<le> length (filter gives_test nodes)"
    using assms(2) plain_functions_give_tests [of nodes] by linarith
  have gen: "fst (generate_tests ext c code) = take 50 (fst (generate_loop c nodes []))"
    using assms(1)
    by (simp add: generate_tests_def TEST_CONFIG_max_test_cases_def split: prod.splits)
  have "length (fst (generate_tests ext c code)) = 50"
    using le by (simp add: gen generate_loop_length)
  moreover have "map tc_input_data (fst (generate_tests ext c code))
           = take 50 (map declaration_input (filter gives_test nodes))"
    by (simp add: gen generate_loop_inputs flip: take_map)
  moreover have "length (fst (generate_tests ext' c' code')) \<le> 50"
    by (simp add: generate_tests_def TEST_CONFIG_max_test_cases_def
          split: prod.splits sum.splits)
  ultimately show ?thesis by simp
qed

theorem test_case_cap_witness:
  "ast_walk (parsing_as eighty_functions) eighty_functions_code = Inr eighty_functions
   \<and> length (filter is_plain_function eighty_functions) = 80
   \<and> length (fst (generate_tests (parsing_as eighty_functions) 0 eighty_functions_code)) = 50"
proof -
  have h1: "ast_walk (parsing_as eighty_functions) eighty_functions_code = Inr eighty_functions"
    by (simp add: parsing_as_def)
  have n: "length (filter is_plain_function eighty_functions) = 80"
    by code_simp
  then have h2: "50 \<le> length (filter is_plain_function eighty_functions)" by simp
  from test_case_cap [OF h1 h2, of 0] h1 n show ?thesis by simp
qed

subsection \<open>The hybrid workflow on code without issues\<close>

text \<open>
  C6: when the static analysis pass of the hybrid workflow finds no security, quality or
  performance issue, the final code of the result is the input code, there is no second
  static analysis (none in the result, and the static agent's history is the one the
  first pass left), and no repair is attempted (none in the result, and the repair agent
  is in the state it was in).
\<close>

theorem hybrid_without_issues:
  assumes "all_static_issues (fst (StaticAnalysisAgent_analyze ext (static_history st) code fp)) = []"
  shows "final_code (fst (execute_hybrid_workflow ext st code fp)) = code
       \<and> static_final (fst (execute_hybrid_workflow ext st code fp)) = None
       \<and> hy_repair_results (fst (execute_hybrid_workflow ext st code fp)) = None
       \<and> hy_applied_repairs (fst (execute_hybrid_workflow ext st code fp)) = []
       \<and> repair_agent (snd (execute_hybrid_workflow ext st code fp)) = repair_agent st
       \<and> static_history (snd (execute_hybrid_workflow ext st code fp))
           = snd (StaticAnalysisAgent_analyze ext (static_history st) code fp)"
proof -
  obtain static_result h1
    where first_pass: "StaticAnalysisAgent_analyze ext (static_history st) code fp
        = (static_result, h1)"
    by (cases "StaticAnalysisAgent_analyze ext (static_history st) code fp")
  with assms have "all_static_issues static_result = []" by simp
  then show ?thesis by (simp add: execute_hybrid_workflow_def first_pass Let_def)
qed

theorem hybrid_without_issues_witness:
  "all_static_issues
     (fst (StaticAnalysisAgent_analyze example_externals (static_history initial_coordinator)
             ''x = 1'' None)) = []
   \<and> final_code (fst (execute_hybrid_workflow example_externals initial_coordinator ''x = 1'' None))
       = ''x = 1''
   \<and> static_final (fst (execute_hybrid_workflow example_externals initial_coordinator ''x = 1'' None))
       = None
   \<and> repair_agent (snd (execute_hybrid_workflow example_externals initial_coordinator ''x = 1'' None))
       = repair_agent initial_coordinator"
proof -
  have h: "all_static_issues
     (fst (StaticAnalysisAgent_analyze example_externals (static_history initial_coordinator)
             ''x = 1'' None)) = []"
    by code_simp
  from hybrid_without_issues [OF h] h show ?thesis by simp
qed

subsection \<open>Saving and loading the configuration\<close>

lemma new_of_to_dict: "AgentConfig_new cwd (to_dict cfg) = cfg"
  by (simp add: AgentConfig_new_def to_dict_def field_or_def)

lemma keys_of_to_dict:
  "list_all (\<lambda>(key, v). List.member AgentConfig_fields key) (to_dict cfg)"
  by (simp add: to_dict_def AgentConfig_fields_def)

lemma name_in_to_dict: "map_of (to_dict cfg) ''name'' = Some (name cfg)"
  by (simp add: to_dict_def)

lemma init_of_to_dict: "AgentConfig_init cwd (to_dict cfg) = post_init cwd cfg"
  using keys_of_to_dict [of cfg]
  by (simp add: AgentConfig_init_def name_in_to_dict new_of_to_dict)

lemma post_init_fixed:
  assumes "json_truthy (working_directory cfg)" and "in_valid_levels (log_level cfg)"
    and "py_le (timeout cfg) (JInt 0) = Inr False"
    and "chained_le (JFloat (Finite 0)) (repair_confidence_threshold cfg) (JFloat (Finite 1))
           = Inr True"
  shows "post_init cwd cfg = Inr cfg"
  using assms by (simp add: post_init_def)

lemma save_clear_load_fixed:
  assumes "post_init cwd cfg = Inr cfg"
  shows "save_clear_load cwd True fs mgr cfg = cfg"
  using assms
  by (simp add: save_clear_load_def save_config_def load_config_def init_of_to_dict)

lemma py_eq_refl: "nan_free v \<Longrightarrow> py_eq v v"
proof (induction v)
  case (JFloat x)
  then show ?case by (cases x) simp_all
next
  case (JList xs)
  then show ?case by (simp add: list_all2_same list_all_iff)
qed simp_all

lemma fields_equal_refl: "no_nan cfg \<Longrightarrow> fields_equal cfg cfg"
  unfolding no_nan_def fields_equal_def list_all2_same list_all_iff
  by (auto intro: py_eq_refl)

text \<open>
  C8, as the code has it: when the file is written, saving a configuration, clearing the
  cache and loading gives back a configuration that is field-for-field equal to the saved
  one, provided no field of the saved instance holds NaN and the saved instance is one
  that \<^verbatim>\<open>__post_init__\<close> leaves as it is: its working directory is a true value, its
  log level is one of the five valid levels, its timeout is a number that is not \<open><= 0\<close>
  and its repair confidence threshold is a number from 0 to 1. The fields hold \<^verbatim>\<open>None\<close>,
  booleans, integers, floats, strings or lists of these, as their declared types have it.
\<close>

theorem config_round_trip:
  assumes "no_nan cfg"
    and "json_truthy (working_directory cfg)" and "in_valid_levels (log_level cfg)"
    and "py_le (timeout cfg) (JInt 0) = Inr False"
    and "chained_le (JFloat (Finite 0)) (repair_confidence_threshold cfg) (JFloat (Finite 1))
           = Inr True"
  shows "fields_equal (save_clear_load cwd True fs mgr cfg) cfg"
proof -
  have "post_init cwd cfg = Inr cfg"
    using assms(2-5) by (rule post_init_fixed)
  then have "save_clear_load cwd True fs mgr cfg = cfg"
    by (rule save_clear_load_fixed)
  with assms(1) show ?thesis by (simp add: fields_equal_refl)
qed

theorem config_round_trip_witness:
  "no_nan custom_config
   \<and> json_truthy (working_directory custom_config)
   \<and> in_valid_levels (log_level custom_config)
   \<and> py_le (timeout custom_config) (JInt 0) = Inr False
   \<and> chained_le (JFloat (Finite 0)) (repair_confidence_threshold custom_config)
        (JFloat (Finite 1)) = Inr True
   \<and> fields_equal (save_clear_load ''/work'' True Map.empty example_manager custom_config)
        custom_config"
proof -
  have h1: "no_nan custom_config" by code_simp
  have h2: "json_truthy (working_directory custom_config)" by code_simp
  have h3: "in_valid_levels (log_level custom_config)" by code_simp
  have h4: "py_le (timeout custom_config) (JInt 0) = Inr False" by code_simp
  have h5: "chained_le (JFloat (Finite 0)) (repair_confidence_threshold custom_config)
        (JFloat (Finite 1)) = Inr True" by code_simp
  from config_round_trip [OF h1 h2 h3 h4 h5] h1 h2 h3 h4 h5 show ?thesis by simp
qed

text \<open>
  C8 as stated fails in three ways. An instance whose threshold was set to 1.5 after its
  construction is saved with 1.5 and loaded with the threshold 0.7. An instance whose
  temperature is NaN is loaded with a NaN, which is not equal to the one saved. And when
  the file cannot be written, loading gives the default configuration.
\<close>

theorem config_round_trip_counterexample:
  "repair_confidence_threshold out_of_range_config = JFloat (Finite (3 / 2))
   \<and> repair_confidence_threshold
        (save_clear_load ''/work'' True Map.empty example_manager out_of_range_config)
       = JFloat (Finite (fl (7 / 10)))
   \<and> \<not> fields_equal
          (save_clear_load ''/work'' True Map.empty example_manager out_of_range_config)
          out_of_range_config
   \<and> ai_temperature (save_clear_load ''/work'' True Map.empty example_manager nan_config)
       = JFloat NaN
   \<and> \<not> fields_equal (save_clear_load ''/work'' True Map.empty example_manager nan_config)
          nan_config
   \<and> \<not> fields_equal (save_clear_load ''/work'' False Map.empty example_manager custom_config)
          custom_config"
  by code_simp

subsection \<open>The success rate of a strategy\<close>

lemma ema_update:
  "success_rates (add_repair_result pm issue_id rr) (dict_get rr ''strategy'' (PyStr ''unknown''))
   = Some (py_fadd
       (py_fmul (case success_rates pm (dict_get rr ''strategy'' (PyStr ''unknown'')) of
                   None \<Rightarrow> fl (5 / 10) | Some r \<Rightarrow> r) (fl (9 / 10)))
       (py_fmul (if py_truthy (dict_get rr ''success'' (PyBool False)) then 1 else 0) (fl (1 / 10))))"
  by (simp add: add_repair_result_def Let_def)

lemma after_success:
  "success_rates (add_repair_result empty_memory ''i1'' success_result) (PyStr ''security'')
   = Some (2476979795053773 / 4503599627370496)"
  by code_simp

lemma after_failure: "success_rates
      (add_repair_result (add_repair_result empty_memory ''i1'' success_result) ''i2'' failure_result)
      (PyStr ''security'') = Some (8917127262193583 / 18014398509481984)"
  by code_simp

lemma rate_not_0495:
  "(8917127262193583 / 18014398509481984 :: rat) \<noteq> 495 / 1000
   \<and> (8917127262193583 / 18014398509481984 :: rat) \<noteq> fl (495 / 1000)"
  by code_simp

lemma fl_055: "fl (55 / 100) = 2476979795053773 / 4503599627370496"
  by code_simp

lemma rate_near_0495:
  "\<bar>(8917127262193583 / 18014398509481984 :: rat) - 495 / 1000\<bar> < 1 / 10 ^ 16"
  by code_simp

text \<open>
  C9 as stated fails at its last value: from the seed, a success and then a failure give
  a rate that is neither the number 0.495 nor the float written \<^verbatim>\<open>0.495\<close>.
\<close>

theorem success_rate_counterexample:
  "success_rates
      (add_repair_result (add_repair_result empty_memory ''i1'' success_result) ''i2'' failure_result)
      (PyStr ''security'') \<noteq> Some (495 / 1000)
   \<and> success_rates
      (add_repair_result (add_repair_result empty_memory ''i1'' success_result) ''i2'' failure_result)
      (PyStr ''security'') \<noteq> Some (fl (495 / 1000))"
  unfolding after_failure using rate_not_0495 by blast

text \<open>
  C9, as the code has it: the rate stored for the strategy of a repair result is
  \<open>0.9 * old + 0.1 * s\<close> in float arithmetic, each product and the sum rounded, where
  \<open>old\<close> is the stored rate or the seed 0.5 and \<open>s\<close> is 1 for a success and 0 otherwise.
  From the seed, one success gives the float written \<^verbatim>\<open>0.55\<close>; a failure after it gives
  the float \<^verbatim>\<open>0.49500000000000005\<close>, which is within \<open>10 ^ -16\<close> of 0.495.
\<close>

theorem success_rate_moving_average:
  "success_rates (add_repair_result pm issue_id rr) (dict_get rr ''strategy'' (PyStr ''unknown''))
   = Some (py_fadd
       (py_fmul (case success_rates pm (dict_get rr ''strategy'' (PyStr ''unknown'')) of
                   None \<Rightarrow> fl (5 / 10) | Some r \<Rightarrow> r) (fl (9 / 10)))
       (py_fmul (if py_truthy (dict_get rr ''success'' (PyBool False)) then 1 else 0) (fl (1 / 10))))
   \<and> success_rates (add_repair_result empty_memory ''i1'' success_result) (PyStr ''security'')
       = Some (fl (55 / 100))
   \<and> success_rates
        (add_repair_result (add_repair_result empty_memory ''i1'' success_result) ''i2''
           failure_result) (PyStr ''security'')
       = Some (8917127262193583 / 18014398509481984)
   \<and> \<bar>(8917127262193583 / 18014398509481984 :: rat) - 495 / 1000\<bar> < 1 / 10 ^ 16"
  unfolding after_failure after_success fl_055 using ema_update rate_near_0495 by blast

end
